theory Spec2Isabelle
  imports Main "HOL-Library.AList" "HOL-Library.Sublist"
begin

section \<open>The SAP system data collector (\<^verbatim>\<open>saltext/sap/_modules/sap.py\<close>)\<close>

text \<open>
  The module has one operation, \<^verbatim>\<open>get_system_data\<close>. It is embedded below piece by
  piece, in the order of the source; every definition names the source lines it
  embeds. Python strings are \<open>string\<close>, a character being a code point below 256
  (text beyond that range is outside the model); Python integers are
  \<open>int\<close>, a Python \<^verbatim>\<open>dict\<close> is an association list in insertion order
  (\<open>AList.update\<close> overwrites in place or appends, as a dict assignment does), an
  exception is a value of \<open>error\<close>, and the logger is a list of records that grows
  at the end.
\<close>

subsection \<open>Python string primitives\<close>

text \<open>\<^verbatim>\<open>str.isspace\<close> on the code points below 256.\<close>

definition is_space :: "char \<Rightarrow> bool" where
  "is_space c = (c \<in> set [CHR 0x09, CHR 0x0A, CHR 0x0B, CHR 0x0C, CHR 0x0D, CHR 0x1C,
     CHR 0x1D, CHR 0x1E, CHR 0x1F, CHR 0x20, CHR 0x85, CHR 0xA0])"

text \<open>\<^verbatim>\<open>s.strip()\<close>\<close>

definition strip :: "string \<Rightarrow> string" where
  "strip s = rev (dropWhile is_space (rev (dropWhile is_space s)))"

text \<open>\<^verbatim>\<open>s.split(c)\<close> for a one-character separator: never the empty list.\<close>

fun split_on :: "char \<Rightarrow> string \<Rightarrow> string list" where
  "split_on c [] = [[]]"
| "split_on c (x # xs) =
     (if x = c then [] # split_on c xs
      else (case split_on c xs of
              [] \<Rightarrow> [[x]]
            | w # ws \<Rightarrow> (x # w) # ws))"

text \<open>\<^verbatim>\<open>s.startswith(p)\<close>\<close>

definition startswith :: "string \<Rightarrow> string \<Rightarrow> bool" where
  "startswith s p = (take (length p) s = p)"

text \<open>
  \<^verbatim>\<open>s.upper()\<close> on the code points below 256. The letters a to z and the
  lower-case letters of the upper half (0xE0 to 0xFE without the division sign 0xF7)
  are raised, the sharp s 0xDF becomes \<^verbatim>\<open>SS\<close>, every other character is kept. Two
  characters have an upper case beyond code point 255, the micro sign 0xB5 and the y
  with diaeresis 0xFF; a string of this model cannot hold it and keeps them as they
  are, which changes no comparison with a string of ASCII letters.
\<close>

definition lower_letters :: string where
  "lower_letters = ''abcdefghijklmnopqrstuvwxyz'' @
       [CHR 0xE0, CHR 0xE1, CHR 0xE2, CHR 0xE3, CHR 0xE4, CHR 0xE5, CHR 0xE6, CHR 0xE7,
        CHR 0xE8, CHR 0xE9, CHR 0xEA, CHR 0xEB, CHR 0xEC, CHR 0xED, CHR 0xEE, CHR 0xEF,
        CHR 0xF0, CHR 0xF1, CHR 0xF2, CHR 0xF3, CHR 0xF4, CHR 0xF5, CHR 0xF6, CHR 0xF8,
        CHR 0xF9, CHR 0xFA, CHR 0xFB, CHR 0xFC, CHR 0xFD, CHR 0xFE]"

definition upper_letters :: string where
  "upper_letters = ''ABCDEFGHIJKLMNOPQRSTUVWXYZ'' @
       [CHR 0xC0, CHR 0xC1, CHR 0xC2, CHR 0xC3, CHR 0xC4, CHR 0xC5, CHR 0xC6, CHR 0xC7,
        CHR 0xC8, CHR 0xC9, CHR 0xCA, CHR 0xCB, CHR 0xCC, CHR 0xCD, CHR 0xCE, CHR 0xCF,
        CHR 0xD0, CHR 0xD1, CHR 0xD2, CHR 0xD3, CHR 0xD4, CHR 0xD5, CHR 0xD6, CHR 0xD8,
        CHR 0xD9, CHR 0xDA, CHR 0xDB, CHR 0xDC, CHR 0xDD, CHR 0xDE]"

definition upper_char :: "char \<Rightarrow> string" where
  "upper_char c =
     (if c = CHR 0xDF then ''SS''
      else (case map_of (zip lower_letters upper_letters) c of
              None \<Rightarrow> [c]
            | Some u \<Rightarrow> [u]))"

definition upper :: "string \<Rightarrow> string" where
  "upper s = concat (map upper_char s)"

text \<open>\<^verbatim>\<open>str(n)\<close> for an integer, and the format \<^verbatim>\<open>{n:02d}\<close>: sign-aware zero
  padding to width two, so only 0 to 9 get a leading zero.\<close>

definition digit_char :: "int \<Rightarrow> char" where
  "digit_char d = (case map_of (zip [0, 1, 2, 3, 4, 5, 6, 7, 8, 9] ''0123456789'') d of
                     None \<Rightarrow> CHR ''0''
                   | Some c \<Rightarrow> c)"

function show_digits :: "int \<Rightarrow> string" where
  "show_digits n =
     (if n < 10 then [digit_char n]
      else show_digits (n div 10) @ [digit_char (n mod 10)])"
  by pat_completeness auto
termination
  by (relation "measure nat") auto

declare show_digits.simps [simp del]

definition show_int :: "int \<Rightarrow> string" where
  "show_int i = (if i < 0 then CHR ''-'' # show_digits (- i) else show_digits i)"

definition fmt02d :: "int \<Rightarrow> string" where
  "fmt02d i = (if 0 \<le> i \<and> i < 10 then CHR ''0'' # show_int i else show_int i)"

text \<open>\<^verbatim>\<open>int(s)\<close> for a string: surrounding whitespace, an optional sign, then digits
  with single underscores between them; anything else is a \<^verbatim>\<open>ValueError\<close>
  (\<open>None\<close>).\<close>

definition is_digit :: "char \<Rightarrow> bool" where
  "is_digit c = (c \<in> set ''0123456789'')"

definition digit_val :: "char \<Rightarrow> int" where
  "digit_val c = (case map_of (zip ''0123456789'' [0, 1, 2, 3, 4, 5, 6, 7, 8, 9]) c of
                    None \<Rightarrow> 0
                  | Some d \<Rightarrow> d)"

fun digits_ok :: "string \<Rightarrow> bool" where
  "digits_ok [] = False"
| "digits_ok [c] = is_digit c"
| "digits_ok (c # d # cs) =
     (is_digit c \<and> (if d = CHR ''_'' then digits_ok cs else digits_ok (d # cs)))"

definition digits_val :: "string \<Rightarrow> int" where
  "digits_val s = foldl (\<lambda>a c. 10 * a + digit_val c) 0 (filter is_digit s)"

definition py_int :: "string \<Rightarrow> int option" where
  "py_int s =
     (case strip s of
        [] \<Rightarrow> None
      | c # r \<Rightarrow>
          if c = CHR ''-'' then (if digits_ok r then Some (- digits_val r) else None)
          else if c = CHR ''+'' then (if digits_ok r then Some (digits_val r) else None)
          else (if digits_ok (c # r) then Some (digits_val (c # r)) else None))"

subsection \<open>Exceptions and the logger\<close>

datatype error =
    Exception string
  | KeyError string
  | IndexError
  | TypeError
  | ValueError
  | UnboundLocalError string

datatype level = DEBUG | WARNING | ERROR | TRACE

type_synonym log = "(level \<times> string) list"

definition log_debug :: "string \<Rightarrow> log \<Rightarrow> log" where
  "log_debug m L = L @ [(DEBUG, m)]"

definition log_warning :: "string \<Rightarrow> log \<Rightarrow> log" where
  "log_warning m L = L @ [(WARNING, m)]"

definition log_error :: "string \<Rightarrow> log \<Rightarrow> log" where
  "log_error m L = L @ [(ERROR, m)]"

definition log_trace :: "string \<Rightarrow> log \<Rightarrow> log" where
  "log_trace m L = L @ [(TRACE, m)]"

subsection \<open>Parsing the parameter dump (lines 131 to 137)\<close>

type_synonym params = "(string \<times> string) list"

text \<open>One line of the dump: \<^verbatim>\<open>line.split("=", 1)\<close> cuts at the first \<^verbatim>\<open>=\<close>.\<close>

definition parse_line :: "string \<Rightarrow> params \<times> log \<Rightarrow> params \<times> log" where
  "parse_line line = (\<lambda>(parameters, L).
     if CHR ''='' \<in> set line then
       (AList.update (strip (takeWhile (\<lambda>c. c \<noteq> CHR ''='') line))
                     (strip (tl (dropWhile (\<lambda>c. c \<noteq> CHR ''='') line))) parameters, L)
     else if line \<noteq> [] then
       (parameters, log_warning (''Cannot determine key/value of parameter '' @ [CHR 0x27] @ line @ [CHR 0x27]) L)
     else (parameters, L))"

definition parse_parameters :: "string \<Rightarrow> log \<Rightarrow> params \<times> log" where
  "parse_parameters parameters_str L =
     fold parse_line (split_on CHR 0x0A parameters_str) ([], L)"

subsection \<open>Data model\<close>

text \<open>
  An instance dict as the InstanceDetailFetcher returns it and as the loop extends
  it. Field \<open>i_x\<close> is the key \<^verbatim>\<open>"x"\<close>; a key that can be absent is an option.
  \<^verbatim>\<open>features\<close> is a list of feature names, tested by membership.
\<close>

record inst =
  i_hostname :: string
  i_instance :: "int option"
  i_features :: "string list"
  i_fqdn :: "string option"
  i_type :: "string option"
  i_name :: "string option"
  i_httpport :: "int option"
  i_httpsport :: "int option"

text \<open>
  The instance dicts are Python objects: the loop mutates the object it visits and
  stores a reference to it in \<^verbatim>\<open>system_data["instances"]\<close>. They live in a store
  from addresses to dicts.
\<close>

type_synonym addr = nat
type_synonym store = "addr \<Rightarrow> inst"

text \<open>A message-server dict has string values only: keys \<^verbatim>\<open>host\<close>, \<^verbatim>\<open>msport\<close>,
  \<^verbatim>\<open>httpport\<close>.\<close>

type_synonym message_server = "(string \<times> string) list"

text \<open>\<^verbatim>\<open>system_data\<close>: field \<open>sd_x\<close> is the key \<^verbatim>\<open>"x"\<close>, \<open>None\<close> when the key is
  absent. The empty dict \<^verbatim>\<open>{}\<close> has every key absent.\<close>

record 'c system_data =
  sd_instances :: "(int \<times> addr) list option"
  sd_db_host :: "string option"
  sd_db_instance :: "string option"
  sd_software_components :: "'c list option"
  sd_message_servers :: "message_server list option"
  sd_logon_groups :: "string list option"

definition empty_system_data :: "'c system_data" where
  "empty_system_data = \<lparr>sd_instances = None, sd_db_host = None, sd_db_instance = None,
     sd_software_components = None, sd_message_servers = None, sd_logon_groups = None\<rparr>"

text \<open>
  The collaborators (\<^verbatim>\<open>__salt__\<close>, \<^verbatim>\<open>__grains__\<close>, \<^verbatim>\<open>requests\<close>) are not part of
  this module; they are parameters of the model, with the contracts of the
  specification's section 6. \<open>list_instances\<close> returns one-entry dicts
  \<^verbatim>\<open>{hostname: instance_number}\<close>, a pair each. \<open>get_system_instance_list\<close> returns
  references into \<open>store\<close>. \<open>file_grep\<close> returns \<^verbatim>\<open>retcode\<close> and \<^verbatim>\<open>stdout\<close>.
  \<open>requests_get\<close> returns \<open>None\<close> when it raises \<^verbatim>\<open>RequestException\<close>, else
  \<^verbatim>\<open>ok\<close> and \<^verbatim>\<open>text\<close>. Python's \<^verbatim>\<open>repr\<close> of a container, which only debug
  messages use, is a parameter too.
\<close>

record 'c env =
  grains_fqdn :: string
  grains_domain :: string
  store :: store
  list_instances :: "string \<Rightarrow> string \<Rightarrow> string \<Rightarrow> bool \<Rightarrow> (string \<times> int) list"
  get_system_instance_list :: "int \<Rightarrow> string \<Rightarrow> string \<Rightarrow> string \<Rightarrow> bool \<Rightarrow> addr list"
  parameter_value :: "int \<Rightarrow> string \<Rightarrow> string \<Rightarrow> string \<Rightarrow> string \<Rightarrow> bool \<Rightarrow> bool \<times> string"
  get_abap_component_list :: "int \<Rightarrow> string \<Rightarrow> string \<Rightarrow> string \<Rightarrow> bool \<Rightarrow> bool \<times> 'c list"
  get_instance_properties :: "int \<Rightarrow> string \<Rightarrow> string \<Rightarrow> string \<Rightarrow> bool \<Rightarrow> (string \<times> string) list"
  file_grep :: "string \<Rightarrow> string \<Rightarrow> int \<times> string"
  requests_get :: "string \<Rightarrow> bool \<Rightarrow> (bool \<times> string) option"
  repr_found :: "(string \<times> int) list \<Rightarrow> string"
  repr_insts :: "inst list \<Rightarrow> string"
  repr_inst :: "inst \<Rightarrow> string"
  repr_comps :: "'c list \<Rightarrow> string"
  repr_strs :: "string list \<Rightarrow> string"
  repr_data :: "'c system_data \<Rightarrow> store \<Rightarrow> string"

subsection \<open>Port entries (lines 175 to 204 and, word for word, 241 to 270)\<close>

text \<open>
  The inner loop over the comma-separated sub-fields (lines 181 to 191, 247 to 257).
  \<^verbatim>\<open>k_v[1]\<close> raises \<^verbatim>\<open>IndexError\<close> when the sub-field has no \<^verbatim>\<open>=\<close>.
\<close>

fun sub_fields ::
  "string \<Rightarrow> string list \<Rightarrow> string option \<Rightarrow> string option \<Rightarrow> log
     \<Rightarrow> (error + string option \<times> string option) \<times> log" where
  "sub_fields icm_k [] protocol port L = (Inr (protocol, port), L)"
| "sub_fields icm_k (param # params) protocol port L =
     (let L1 = log_debug (''Processing '' @ [CHR 0x27] @ param @ [CHR 0x27]) L in
      case split_on CHR ''='' param of
        k # v # _ \<Rightarrow>
          (let key = strip k; val = strip v in
           if key = ''PROT'' then sub_fields icm_k params (Some val) port L1
           else if key = ''PORT'' then sub_fields icm_k params protocol (Some val) L1
           else sub_fields icm_k params protocol port
                  (log_warning (''Unknown parameter '' @ key @ ''='' @ val @ '' for '' @ icm_k) L1))
      | _ \<Rightarrow> (Inl IndexError, L1))"

text \<open>
  One parameter whose key has the prefix (the body of the outer loop, lines 177 to
  204, 243 to 270). \<^verbatim>\<open>int(port)\<close> comes before the test for a missing value: it
  raises \<^verbatim>\<open>TypeError\<close> on \<^verbatim>\<open>None\<close> and \<^verbatim>\<open>ValueError\<close> on a string that is no
  integer. \<^verbatim>\<open>not protocol\<close> holds for \<^verbatim>\<open>None\<close> and for the empty string,
  \<^verbatim>\<open>not port\<close> for 0. \<open>label\<close> is \<^verbatim>\<open>ICM\<close> or \<^verbatim>\<open>MS\<close>, the one word in which
  the two copies differ.
\<close>

definition port_entry ::
  "string \<Rightarrow> string \<Rightarrow> string \<Rightarrow> inst \<Rightarrow> log \<Rightarrow> error option \<times> inst \<times> log" where
  "port_entry label icm_k icm_v instance L =
     (case sub_fields icm_k (split_on CHR '','' icm_v) None None
             (log_debug (''Got data for '' @ icm_k @ '': '' @ icm_v) L) of
        (Inl e, L1) \<Rightarrow> (Some e, instance, L1)
      | (Inr (protocol, port_str), L1) \<Rightarrow>
          (case port_str of
             None \<Rightarrow> (Some TypeError, instance, L1)
           | Some p \<Rightarrow>
               (case py_int p of
                  None \<Rightarrow> (Some ValueError, instance, L1)
                | Some port \<Rightarrow>
                    (case protocol of
                       None \<Rightarrow> (None, instance,
                                 log_warning (''Protocol or port not defined for '' @ icm_k) L1)
                     | Some prot \<Rightarrow>
                         if prot = [] \<or> port = 0 then
                           (None, instance,
                            log_warning (''Protocol or port not defined for '' @ icm_k) L1)
                         else if upper prot = ''HTTPS'' then
                           (None, instance\<lparr>i_httpsport := Some port\<rparr>,
                            log_debug (''Got '' @ label @ '' HTTPS port: '' @ show_int port) L1)
                         else if upper prot = ''HTTP'' then
                           (None, instance\<lparr>i_httpport := Some port\<rparr>,
                            log_debug (''Got '' @ label @ '' HTTP port: '' @ show_int port) L1)
                         else
                           (None, instance,
                            log_error (''Unknown protocol '' @ [CHR 0x27] @ upper prot @ [CHR 0x27]
                                         @ '', skipping'') L1)))))"

text \<open>The outer loop over \<^verbatim>\<open>parameters.items()\<close> (lines 175 and 241); an exception
  ends it.\<close>

fun port_entries ::
  "string \<Rightarrow> string \<Rightarrow> params \<Rightarrow> inst \<Rightarrow> log \<Rightarrow> error option \<times> inst \<times> log" where
  "port_entries key_prefix label [] instance L = (None, instance, L)"
| "port_entries key_prefix label ((icm_k, icm_v) # rest) instance L =
     (if startswith icm_k key_prefix then
        (case port_entry label icm_k icm_v instance L of
           (Some e, instance1, L1) \<Rightarrow> (Some e, instance1, L1)
         | (None, instance1, L1) \<Rightarrow> port_entries key_prefix label rest instance1 L1)
      else port_entries key_prefix label rest instance L)"

subsection \<open>The ABAP branch (lines 141 to 204)\<close>

text \<open>
  A branch returns the exception or the new \<^verbatim>\<open>system_data\<close>, and in both cases the
  instance dict and the log as they are at that point. \<open>nr\<close> and \<open>ifqdn\<close> are
  \<^verbatim>\<open>instance["instance"]\<close> and \<^verbatim>\<open>instance["fqdn"]\<close>, read at lines 121 and 123 and not
  written again before line 329. \<open>parameters\<close> is the local variable of that name:
  \<open>None\<close> while it is unbound, and reading it then raises \<^verbatim>\<open>UnboundLocalError\<close>.
\<close>

text \<open>Lines 144 to 148, lines 150 to 156 and lines 158 to 172: three steps that
  write to \<^verbatim>\<open>system_data\<close> or warn.\<close>

definition read_db_host :: "params \<Rightarrow> 'c system_data \<Rightarrow> log \<Rightarrow> 'c system_data \<times> log" where
  "read_db_host ps system_data L =
     (case map_of ps ''SAPDBHOST'' of
        None \<Rightarrow> (system_data, log_warning ''Parameter SAPDBHOST does not exist'' L)
      | Some h \<Rightarrow> (system_data\<lparr>sd_db_host := Some h\<rparr>, log_debug (''Got DB host: '' @ h) L))"

definition read_db_name :: "params \<Rightarrow> 'c system_data \<Rightarrow> log \<Rightarrow> 'c system_data \<times> log" where
  "read_db_name ps system_data L =
     (case map_of ps ''rsdb/dbid'' of
        None \<Rightarrow> (system_data,
                  log_warning ''Parameter rsdb/dbid does not exist''
                    (log_debug ''Retrieving DB name'' L))
      | Some d \<Rightarrow> (system_data\<lparr>sd_db_instance := Some d\<rparr>,
                   log_debug (''Got DB name: '' @ d) (log_debug ''Retrieving DB name'' L)))"

definition read_components ::
  "'c env \<Rightarrow> string \<Rightarrow> string \<Rightarrow> bool \<Rightarrow> int \<Rightarrow> string \<Rightarrow> 'c system_data \<Rightarrow> log
     \<Rightarrow> 'c system_data \<times> log" where
  "read_components E username password verify nr ifqdn system_data L =
     (case get_abap_component_list E nr ifqdn username password verify of
        (success, comps) \<Rightarrow>
          if \<not> success then
            (system_data, log_warning ''Could not retrieve ABAP component list''
                            (log_debug ''Retrieving ABAP component list'' L))
          else if comps = [] then
            (system_data, log_warning ''ABAP components does not exist''
                            (log_debug ''Retrieving ABAP component list'' L))
          else
            (system_data\<lparr>sd_software_components := Some comps\<rparr>,
             log_debug (''Got ABAP components\<newline>'' @ repr_comps E comps)
               (log_debug ''Retrieving ABAP component list'' L)))"

definition abap_branch ::
  "'c env \<Rightarrow> string \<Rightarrow> string \<Rightarrow> bool \<Rightarrow> int \<Rightarrow> string \<Rightarrow> inst \<Rightarrow> params option
     \<Rightarrow> 'c system_data \<Rightarrow> log \<Rightarrow> (error + 'c system_data) \<times> inst \<times> log" where
  "abap_branch E username password verify nr ifqdn instance0 parameters system_data0 L0 =
     (let L1 = log_debug ''Retrieving DB host'' (log_debug ''Processing ABAP instance'' L0);
          instance = instance0\<lparr>i_type := Some ''ABAP''\<rparr>
      in case parameters of
        None \<Rightarrow> (Inl (UnboundLocalError ''parameters''), instance, L1)
      | Some ps \<Rightarrow>
         (let (system_data1, L2) = read_db_host ps system_data0 L1;
              (system_data2, L3) = read_db_name ps system_data1 L2;
              (system_data3, L4) =
                read_components E username password verify nr ifqdn system_data2 L3
          in case port_entries ''icm/server_port_'' ''ICM'' ps instance
                    (log_debug ''Retrieve ICM ports for instance'' L4) of
               (Some e, instance1, L5) \<Rightarrow> (Inl e, instance1, L5)
             | (None, instance1, L5) \<Rightarrow> (Inr system_data3, instance1, L5)))"

subsection \<open>The MESSAGESERVER branch: ports (lines 218 to 279)\<close>

text \<open>
  Lines 229 to 239: the message-server port from \<^verbatim>\<open>/etc/services\<close>, or the default.
  \<^verbatim>\<open>stdout.split("\t")[1]\<close> raises \<^verbatim>\<open>IndexError\<close> when the line has no tab.
\<close>

definition msport ::
  "'c env \<Rightarrow> string \<Rightarrow> int \<Rightarrow> message_server \<Rightarrow> log \<Rightarrow> (error + message_server) \<times> log" where
  "msport E sid nr message_server L =
     (case file_grep E ''/etc/services'' (''sapms'' @ sid) of
        (retcode, stdout) \<Rightarrow>
          if retcode = 0 then
            (case split_on CHR 0x09 stdout of
               _ # field # _ \<Rightarrow>
                 (case split_on CHR ''/'' field of
                    [] \<Rightarrow> (Inl IndexError,
                           log_debug ''Message server port definiton found in /etc/services'' L)
                  | p # _ \<Rightarrow>
                      (Inr (AList.update ''msport'' p message_server),
                       log_debug (''Got messageserver port: '' @ p)
                         (log_debug ''Message server port definiton found in /etc/services'' L)))
             | _ \<Rightarrow> (Inl IndexError,
                     log_debug ''Message server port definiton found in /etc/services'' L))
          else
            (Inr (AList.update ''msport'' (''36'' @ fmt02d nr) message_server),
             log_debug (''Could not find message server port in /etc/services, using default ''
                          @ ''36'' @ fmt02d nr) L))"

text \<open>
  Lines 218 to 279. The port entries are written to the instance dict; the test of
  line 271 reads the message-server dict. Line 222 and line 278 together leave
  \<^verbatim>\<open>message_servers\<close> as the old list (empty if the key was absent) with the new
  dict appended.
\<close>

definition ms_ports ::
  "'c env \<Rightarrow> string \<Rightarrow> int \<Rightarrow> string \<Rightarrow> inst \<Rightarrow> params option
     \<Rightarrow> 'c system_data \<Rightarrow> log \<Rightarrow> (error + 'c system_data) \<times> inst \<times> log" where
  "ms_ports E sid nr ifqdn instance0 parameters system_data0 L0 =
     (let instance = instance0\<lparr>i_type := Some ''ASCS''\<rparr>;
          L1 = log_debug ''Adding messageserver port''
                 (log_debug ''Retrieving Ports''
                    (log_debug ''Processing MESSAGESERVER instance'' L0));
          old_message_servers =
            (case sd_message_servers system_data0 of None \<Rightarrow> [] | Some l \<Rightarrow> l)
      in case msport E sid nr [(''host'', ifqdn)] L1 of
        (Inl e, L2) \<Rightarrow> (Inl e, instance, L2)
      | (Inr message_server, L2) \<Rightarrow>
         (case parameters of
            None \<Rightarrow> (Inl (UnboundLocalError ''parameters''), instance, L2)
          | Some ps \<Rightarrow>
             (case port_entries ''ms/server_port_'' ''MS'' ps instance L2 of
                (Some e, instance1, L3) \<Rightarrow> (Inl e, instance1, L3)
              | (None, instance1, L3) \<Rightarrow>
                  if ''httpport'' \<notin> fst ` set message_server then
                    (Inr (system_data0\<lparr>sd_message_servers :=
                            Some (old_message_servers
                                  @ [AList.update ''httpport'' (''81'' @ fmt02d nr) message_server])\<rparr>),
                     instance1,
                     log_warning (''Could not determine HTTP / HTTPS port of message server, ''
                                    @ ''setting to default '' @ ''81'' @ fmt02d nr) L3)
                  else
                    (Inr (system_data0\<lparr>sd_message_servers :=
                            Some (old_message_servers @ [message_server])\<rparr>),
                     instance1, L3))))"

subsection \<open>The MESSAGESERVER branch: logon groups (lines 280 to 315)\<close>

text \<open>\<^verbatim>\<open>d[k]\<close> on a dict with string keys.\<close>

definition dict_get :: "(string \<times> 'v) list \<Rightarrow> string \<Rightarrow> error + 'v" where
  "dict_get d k = (case map_of d k of None \<Rightarrow> Inl (KeyError k) | Some v \<Rightarrow> Inr v)"

text \<open>
  The URL of lines 287 and 290. Both f-strings read \<^verbatim>\<open>message_server['host']\<close> and
  then \<^verbatim>\<open>message_server['httpsport']\<close>; they differ in the scheme.
\<close>

definition lglist_url :: "string \<Rightarrow> message_server \<Rightarrow> error + string" where
  "lglist_url scheme message_server =
     (case dict_get message_server ''host'' of
        Inl e \<Rightarrow> Inl e
      | Inr h \<Rightarrow>
         (case dict_get message_server ''httpsport'' of
            Inl e \<Rightarrow> Inl e
          | Inr p \<Rightarrow> Inr (scheme @ ''://'' @ h @ '':'' @ p @ ''/msgserver/text/lglist'')))"

text \<open>
  The loop of lines 283 to 302; its result is \<^verbatim>\<open>response\<close>. The
  \<^verbatim>\<open>requests.Session\<close> object of line 284 is never used for a request and is left
  out. The URL is built outside the \<^verbatim>\<open>try\<close>.
\<close>

fun probe ::
  "'c env \<Rightarrow> bool \<Rightarrow> message_server list \<Rightarrow> log \<Rightarrow> (error + string option) \<times> log" where
  "probe E verify [] L = (Inr None, L)"
| "probe E verify (message_server # rest) L =
     (case (if verify \<and> ''httpsport'' \<in> fst ` set message_server
            then lglist_url ''https'' message_server
            else lglist_url ''http'' message_server) of
        Inl e \<Rightarrow> (Inl e, L)
      | Inr url \<Rightarrow>
         (case requests_get E url verify of
            None \<Rightarrow>
              (case dict_get message_server ''host'' of
                 Inl e \<Rightarrow> (Inl e, L)
               | Inr h \<Rightarrow>
                   probe E verify rest
                     (log_debug (''Cannot reach message server '' @ h
                                   @ '' to retrieve logon groups'') L))
          | Some (ok, text) \<Rightarrow>
              if \<not> ok then probe E verify rest L else (Inr (Some text), L)))"

text \<open>Lines 280 to 315. \<^verbatim>\<open>not response\<close> holds for \<^verbatim>\<open>None\<close> and for the empty
  string.\<close>

definition logon_groups ::
  "'c env \<Rightarrow> bool \<Rightarrow> 'c system_data \<Rightarrow> log \<Rightarrow> (error + 'c system_data) \<times> log" where
  "logon_groups E verify system_data L =
     (case sd_message_servers system_data of
        None \<Rightarrow> (Inl (KeyError ''message_servers''), log_debug ''Retrieving Logon Groups'' L)
      | Some message_servers \<Rightarrow>
         (case probe E verify message_servers (log_debug ''Retrieving Logon Groups'' L) of
            (Inl e, L1) \<Rightarrow> (Inl e, L1)
          | (Inr response, L1) \<Rightarrow>
              if response = None \<or> response = Some [] then
                (Inr (system_data\<lparr>sd_logon_groups := Some [''SPACE'']\<rparr>),
                 log_debug (''Got logon groups: '' @ repr_strs E [''SPACE''])
                   (log_warning (''Could not reach any message server to retrieve logon groups, ''
                                   @ ''adding default logon group SPACE'') L1))
              else
                (let groups =
                       map (\<lambda>logon_group. hd (split_on CHR 0x09 logon_group))
                         (filter (\<lambda>logon_group. logon_group \<noteq> [])
                            (tl (split_on CHR 0x0A (case response of None \<Rightarrow> [] | Some t \<Rightarrow> t))))
                 in (Inr (system_data\<lparr>sd_logon_groups := Some groups\<rparr>),
                     log_debug (''Got logon groups: '' @ repr_strs E groups) L1))))"

definition ms_branch ::
  "'c env \<Rightarrow> string \<Rightarrow> bool \<Rightarrow> int \<Rightarrow> string \<Rightarrow> inst \<Rightarrow> params option
     \<Rightarrow> 'c system_data \<Rightarrow> log \<Rightarrow> (error + 'c system_data) \<times> inst \<times> log" where
  "ms_branch E sid verify nr ifqdn instance parameters system_data L =
     (case ms_ports E sid nr ifqdn instance parameters system_data L of
        (Inl e, instance1, L1) \<Rightarrow> (Inl e, instance1, L1)
      | (Inr system_data1, instance1, L1) \<Rightarrow>
          (case logon_groups E verify system_data1 L1 of
             (r, L2) \<Rightarrow> (r, instance1, L2)))"

subsection \<open>The instance type (lines 139 to 317)\<close>

text \<open>The \<^verbatim>\<open>if\<close>/\<^verbatim>\<open>elif\<close> chain over \<^verbatim>\<open>instance["features"]\<close>, in the source's
  order.\<close>

definition instance_type ::
  "'c env \<Rightarrow> string \<Rightarrow> string \<Rightarrow> string \<Rightarrow> bool \<Rightarrow> int \<Rightarrow> string \<Rightarrow> inst \<Rightarrow> params option
     \<Rightarrow> 'c system_data \<Rightarrow> log \<Rightarrow> (error + 'c system_data) \<times> inst \<times> log" where
  "instance_type E sid username password verify nr ifqdn instance parameters system_data L0 =
     (let L = log_debug ''Determine instance type'' L0 in
      if ''ABAP'' \<in> set (i_features instance) then
        abap_branch E username password verify nr ifqdn instance parameters system_data L
      else if ''WEBDISP'' \<in> set (i_features instance) then
        (Inr system_data, instance\<lparr>i_type := Some ''WEBDISP''\<rparr>,
         log_debug ''Processing WEBDISP instance'' L)
      else if ''J2EE'' \<in> set (i_features instance) then
        (Inr system_data, instance\<lparr>i_type := Some ''JAVA''\<rparr>,
         log_debug ''Processing J2EE instance'' L)
      else if ''TREX'' \<in> set (i_features instance) then
        (Inr system_data, instance\<lparr>i_type := Some ''TREX''\<rparr>,
         log_debug ''Processing TREX instance'' L)
      else if ''HDB'' \<in> set (i_features instance) then
        (Inr system_data, instance\<lparr>i_type := Some ''HDB''\<rparr>,
         log_debug ''Processing HDB instance'' L)
      else if ''MESSAGESERVER'' \<in> set (i_features instance) then
        ms_branch E sid verify nr ifqdn instance parameters system_data L
      else
        (Inr system_data, instance\<lparr>i_type := Some ''UNKNOWN''\<rparr>, L))"

subsection \<open>One iteration of the loop over the instances (lines 115 to 333)\<close>

text \<open>
  Lines 120 to 137: the parameter fetch. On failure \<^verbatim>\<open>parameters\<close> is not assigned:
  it keeps the value of the iteration before, or stays unbound.
\<close>

definition fetch_parameters ::
  "'c env \<Rightarrow> string \<Rightarrow> string \<Rightarrow> bool \<Rightarrow> int \<Rightarrow> string \<Rightarrow> params option \<Rightarrow> log
     \<Rightarrow> params option \<times> log" where
  "fetch_parameters E username password verify nr ifqdn parameters L =
     (case parameter_value E nr [] ifqdn username password verify of
        (success, parameters_str) \<Rightarrow>
          if \<not> success then (parameters, log_warning ''Could not retrieve parameters'' L)
          else (case parse_parameters parameters_str L of
                  (ps, L1) \<Rightarrow> (Some ps, L1)))"

text \<open>
  Lines 319 to 333. \<open>fqdn\<close> is the variable of line 96, \<open>a\<close> the reference to the
  instance dict. The dict loses the key \<^verbatim>\<open>instance\<close> and its reference is stored
  under the number.
\<close>

definition add_instance ::
  "'c env \<Rightarrow> string \<Rightarrow> string \<Rightarrow> bool \<Rightarrow> string \<Rightarrow> addr \<Rightarrow> int \<Rightarrow> inst
     \<Rightarrow> 'c system_data \<Rightarrow> log \<Rightarrow> (error + 'c system_data) \<times> inst \<times> log" where
  "add_instance E username password verify fqdn a nr instance system_data L =
     (let instance_properties = get_instance_properties E nr fqdn username password verify;
          instance1 = instance\<lparr>i_name :=
                        Some (case map_of instance_properties ''INSTANCE_NAME'' of
                                None \<Rightarrow> ''UNKOWN_INSTANCE_NAME''
                              | Some n \<Rightarrow> n)\<rparr>;
          instance_name = nr;
          instance2 = instance1\<lparr>i_instance := None\<rparr>
      in case sd_instances system_data of
           None \<Rightarrow> (Inl (KeyError ''instances''), instance2,
                     log_debug ''Retrieve instance properties'' L)
         | Some m \<Rightarrow>
             (Inr (system_data\<lparr>sd_instances := Some (AList.update instance_name a m)\<rparr>),
              instance2,
              log_debug (''Added instance '' @ show_int instance_name @ '' with details \<newline>''
                           @ repr_inst E instance2)
                (log_debug ''Retrieve instance properties'' L)))"

text \<open>
  The whole body. \<^verbatim>\<open>instance["instance"]\<close> at line 121 raises \<^verbatim>\<open>KeyError\<close> when
  the key is gone. A normal end returns \<^verbatim>\<open>parameters\<close> for the next iteration.
\<close>

definition process_instance ::
  "'c env \<Rightarrow> string \<Rightarrow> string \<Rightarrow> string \<Rightarrow> bool \<Rightarrow> string \<Rightarrow> string \<Rightarrow> addr \<Rightarrow> inst
     \<Rightarrow> params option \<Rightarrow> 'c system_data \<Rightarrow> log
     \<Rightarrow> (error + params option \<times> 'c system_data) \<times> inst \<times> log" where
  "process_instance E sid username password verify domain fqdn a instance0 parameters
     system_data L0 =
     (let L1 = log_debug ''Retrieving all parameters for processing''
                 (log_debug ''Setting FQDN''
                    (log_debug (''Current instance\<newline>'' @ repr_inst E instance0) L0));
          ifqdn = i_hostname instance0 @ ''.'' @ domain;
          instance = instance0\<lparr>i_fqdn := Some ifqdn\<rparr>
      in case i_instance instance of
        None \<Rightarrow> (Inl (KeyError ''instance''), instance, L1)
      | Some nr \<Rightarrow>
         (case fetch_parameters E username password verify nr ifqdn parameters L1 of
            (parameters1, L2) \<Rightarrow>
              (case instance_type E sid username password verify nr ifqdn instance
                      parameters1 system_data L2 of
                 (Inl e, instance1, L3) \<Rightarrow> (Inl e, instance1, L3)
               | (Inr system_data1, instance1, L3) \<Rightarrow>
                   (case add_instance E username password verify fqdn a nr instance1
                           system_data1 L3 of
                      (Inl e, instance2, L4) \<Rightarrow> (Inl e, instance2, L4)
                    | (Inr system_data2, instance2, L4) \<Rightarrow>
                        (Inr (parameters1, system_data2), instance2, L4)))))"

subsection \<open>The loop (line 114) and the function (lines 47 to 336)\<close>

text \<open>
  The loop visits the references in order; each iteration reads the dict from the
  store and leaves it there as the body left it, also when the body raised. At its
  end the loop leaves the two locals \<^verbatim>\<open>parameters\<close> and \<^verbatim>\<open>system_data\<close>.
\<close>

fun loop_instances ::
  "'c env \<Rightarrow> string \<Rightarrow> string \<Rightarrow> string \<Rightarrow> bool \<Rightarrow> string \<Rightarrow> string \<Rightarrow> addr list
     \<Rightarrow> params option \<Rightarrow> 'c system_data \<Rightarrow> store \<Rightarrow> log
     \<Rightarrow> (error + params option \<times> 'c system_data) \<times> store \<times> log" where
  "loop_instances E sid username password verify domain fqdn [] parameters system_data H L =
     (Inr (parameters, system_data), H, L)"
| "loop_instances E sid username password verify domain fqdn (a # as) parameters system_data H L =
     (case process_instance E sid username password verify domain fqdn a (H a) parameters
             system_data L of
        (Inl e, instance, L1) \<Rightarrow> (Inl e, H(a := instance), L1)
      | (Inr (parameters1, system_data1), instance, L1) \<Rightarrow>
          loop_instances E sid username password verify domain fqdn as parameters1
            system_data1 (H(a := instance)) L1)"

text \<open>
  \<^verbatim>\<open>get_system_data\<close>. The result is what the caller gets (the exception or the
  returned \<^verbatim>\<open>system_data\<close>) with the store and the log at that moment. The
  instance records of the result are the dicts the references of
  \<open>sd_instances\<close> point to.
\<close>

definition get_system_data ::
  "'c env \<Rightarrow> string \<Rightarrow> string \<Rightarrow> string \<Rightarrow> bool
     \<Rightarrow> (error + 'c system_data) \<times> store \<times> log" where
  "get_system_data E sid username password verify =
     (let L1 = log_debug (''Getting instances for system '' @ sid)
                 (log_debug ''Running function'' [])
      in case list_instances E sid username password (\<not> verify) of
        [] \<Rightarrow>
          (Inr empty_system_data, store E,
           log_warning (''No instances found for '' @ sid @ '' on '' @ grains_fqdn E) L1)
      | (hostname, number) # found \<Rightarrow>
         (let instances0 = (hostname, number) # found;
              domain = grains_domain E;
              fqdn = hostname @ ''.'' @ domain;
              L2 = log_debug (''Getting instance details for system '' @ sid)
                     (log_debug (''Got FQDN: '' @ fqdn)
                        (log_debug (''Got Hostname: '' @ hostname)
                           (log_debug (''Got instances\<newline>'' @ repr_found E instances0) L1)))
          in case get_system_instance_list E number fqdn username password verify of
               [] \<Rightarrow>
                 (Inl (Exception (''No instances found for '' @ sid @ '' on '' @ fqdn)),
                  store E,
                  log_error (''No instances found for '' @ sid @ '' on '' @ fqdn) L2)
             | a # as \<Rightarrow>
                 (case loop_instances E sid username password verify domain fqdn (a # as) None
                         (empty_system_data\<lparr>sd_instances := Some []\<rparr>) (store E)
                         (log_debug ''Loop instances''
                            (log_debug (''Got instance details\<newline>''
                                          @ repr_insts E (map (store E) (a # as))) L2)) of
                    (Inl e, H, L3) \<Rightarrow> (Inl e, H, L3)
                  | (Inr (parameters, system_data), H, L3) \<Rightarrow>
                      (Inr system_data, H,
                       log_trace (''system_data\<newline>'' @ repr_data E system_data H @ '':'') L3))))"

subsection \<open>The specification's reading of the parameter dump\<close>

text \<open>
  A line is a parameter when it holds \<^verbatim>\<open>=\<close>; its key and value lie left and right
  of the first \<^verbatim>\<open>=\<close>, trimmed. A line that is neither a parameter nor empty is
  malformed and costs one warning.
\<close>

definition has_eq :: "string \<Rightarrow> bool" where
  "has_eq line = (CHR ''='' \<in> set line)"

definition key_value :: "string \<Rightarrow> string \<times> string" where
  "key_value line =
     (strip (takeWhile (\<lambda>c. c \<noteq> CHR ''='') line),
      strip (tl (dropWhile (\<lambda>c. c \<noteq> CHR ''='') line)))"

definition malformed :: "string \<Rightarrow> bool" where
  "malformed line = (\<not> has_eq line \<and> line \<noteq> [])"

definition malformed_warning :: "string \<Rightarrow> level \<times> string" where
  "malformed_warning line =
     (WARNING, ''Cannot determine key/value of parameter '' @ [CHR 0x27] @ line @ [CHR 0x27])"

text \<open>
  What trimming means: \<open>t\<close> is \<open>s\<close> without the whitespace around it when \<open>s\<close> is
  \<open>t\<close> between two runs of whitespace and \<open>t\<close> neither starts nor ends with
  whitespace. What splitting means: joining the pieces with the separator gives the
  text back, and no piece holds the separator.
\<close>

definition trimmed_from :: "string \<Rightarrow> string \<Rightarrow> bool" where
  "trimmed_from t s =
     (\<exists>a b. s = a @ t @ b \<and> list_all is_space a \<and> list_all is_space b
            \<and> dropWhile is_space t = t \<and> dropWhile is_space (rev t) = rev t)"

fun join_on :: "char \<Rightarrow> string list \<Rightarrow> string" where
  "join_on c [] = []"
| "join_on c [l] = l"
| "join_on c (l # m # ls) = l @ c # join_on c (m # ls)"

subsection \<open>The specification's classification\<close>

text \<open>The precedence list of the specification, a feature name with the type it
  gives; the first entry whose feature is among the instance's features applies.\<close>

definition precedence :: "(string \<times> string) list" where
  "precedence = [(''ABAP'', ''ABAP''), (''WEBDISP'', ''WEBDISP''), (''J2EE'', ''JAVA''),
     (''TREX'', ''TREX''), (''HDB'', ''HDB''), (''MESSAGESERVER'', ''ASCS'')]"

definition spec_classify :: "string list \<Rightarrow> string" where
  "spec_classify features =
     (case find (\<lambda>(feature, t). feature \<in> set features) precedence of
        None \<Rightarrow> ''UNKNOWN''
      | Some (feature, t) \<Rightarrow> t)"

subsection \<open>Example environments\<close>

text \<open>An instance dict as discovery returns it, and a set of collaborators that
  answer the same for every argument.\<close>

definition mk_inst :: "string \<Rightarrow> int \<Rightarrow> string list \<Rightarrow> inst" where
  "mk_inst h n fs = \<lparr>i_hostname = h, i_instance = Some n, i_features = fs, i_fqdn = None,
     i_type = None, i_name = None, i_httpport = None, i_httpsport = None\<rparr>"

definition demo_env ::
  "(string \<times> int) list \<Rightarrow> addr list \<Rightarrow> store \<Rightarrow> bool \<times> string \<Rightarrow> string env" where
  "demo_env found refs H dump =
     \<lparr>grains_fqdn = ''minion.example.org'', grains_domain = ''example.org'', store = H,
      list_instances = (\<lambda>sid username password fallback. found),
      get_system_instance_list = (\<lambda>nr fqdn username password verify. refs),
      parameter_value = (\<lambda>nr parameter fqdn username password verify. dump),
      get_abap_component_list = (\<lambda>nr fqdn username password verify. (True, [''SAP_BASIS''])),
      get_instance_properties =
        (\<lambda>nr fqdn username password verify. [(''INSTANCE_NAME'', ''NAME_ON_'' @ fqdn)]),
      file_grep = (\<lambda>path pattern. (1, [])),
      requests_get = (\<lambda>url verify. None),
      repr_found = (\<lambda>x. []), repr_insts = (\<lambda>x. []), repr_inst = (\<lambda>x. []),
      repr_comps = (\<lambda>x. []), repr_strs = (\<lambda>x. []), repr_data = (\<lambda>x H. [])\<rparr>"

text \<open>Two instances, J2EE with number 0 and ABAP with number 1; the parameter
  fetch succeeds for number 0 only.\<close>

definition stale_env :: "string env" where
  "stale_env =
     (demo_env [(''h1'', 0)] [0, 1]
        (\<lambda>a. if a = 0 then mk_inst ''h1'' 0 [''J2EE''] else mk_inst ''h2'' 1 [''ABAP''])
        (True, []))
     \<lparr>parameter_value := (\<lambda>nr parameter fqdn username password verify.
         if nr = 0 then (True, ''SAPDBHOST=dbhost_of_instance_0'') else (False, []))\<rparr>"

subsection \<open>A property fetcher that ignores the host it is asked about\<close>

text \<open>\<open>props_at f E\<close> is \<open>E\<close> with an InstancePropertyFetcher that answers every
  call as \<open>E\<close>'s fetcher answers the call for the FQDN \<open>f\<close>.\<close>

definition props_at :: "string \<Rightarrow> 'c env \<Rightarrow> 'c env" where
  "props_at f E =
     E\<lparr>get_instance_properties :=
         (\<lambda>nr fqdn username password verify. get_instance_properties E nr f username password verify)\<rparr>"

text \<open>Two instances on two hosts, J2EE on \<^verbatim>\<open>h1\<close> and WEBDISP on \<^verbatim>\<open>h2\<close>; discovery
  names \<^verbatim>\<open>h1\<close> first.\<close>

definition two_hosts_env :: "string env" where
  "two_hosts_env =
     demo_env [(''h1'', 0)] [0, 1]
       (\<lambda>a. if a = 0 then mk_inst ''h1'' 0 [''J2EE''] else mk_inst ''h2'' 1 [''WEBDISP''])
       (True, [])"

section \<open>Properties\<close>

subsection \<open>Parameter dump\<close>

lemma fold_parse_line:
  "fold parse_line ls (ps, L) =
     (fold (\<lambda>l. AList.update (fst (key_value l)) (snd (key_value l))) (filter has_eq ls) ps,
      L @ map malformed_warning (filter malformed ls))"
  by (induction ls arbitrary: ps L)
     (simp_all add: parse_line_def has_eq_def key_value_def malformed_def
        malformed_warning_def log_warning_def)

lemma map_of_fold_update:
  "map_of (fold (\<lambda>l. AList.update (fst (f l)) (snd (f l))) ls ps) = map_of (rev (map f ls) @ ps)"
  by (induction ls arbitrary: ps) (simp_all add: update_conv')

text \<open>\<^verbatim>\<open>strip\<close> trims, and \<^verbatim>\<open>split\<close> splits.\<close>

lemma no_leading_iff: "dropWhile P xs = xs \<longleftrightarrow> xs = [] \<or> \<not> P (hd xs)"
  by (cases xs) (auto simp: dropWhile_eq_Cons_conv)

lemma strip_trimmed: "trimmed_from (strip s) s"
proof -
  define a where "a = takeWhile is_space s"
  define u where "u = dropWhile is_space s"
  define b where "b = takeWhile is_space (rev u)"
  define t where "t = dropWhile is_space (rev u)"
  have s: "s = a @ u" by (simp add: a_def u_def)
  have ru: "rev u = b @ t" by (simp add: b_def t_def)
  then have u: "u = rev t @ rev b" by (metis rev_append rev_rev_ident)
  have st: "strip s = rev t" by (simp add: strip_def t_def u_def)
  have sa: "list_all is_space a"
    unfolding a_def list_all_iff using set_takeWhileD by fastforce
  have sb: "list_all is_space (rev b)"
    unfolding b_def list_all_iff using set_takeWhileD by fastforce
  have tr: "dropWhile is_space (rev (rev t)) = rev (rev t)"
    by (simp add: t_def)
  have ld: "dropWhile is_space (rev t) = rev t"
  proof (cases "t = []")
    case True
    then show ?thesis by simp
  next
    case False
    then have "last (rev u) = last t" using ru by simp
    moreover have "u \<noteq> []" using False ru by auto
    ultimately have "last t = hd u" by (simp add: last_rev)
    moreover have "\<not> is_space (hd u)"
      using \<open>u \<noteq> []\<close> unfolding u_def by (rule hd_dropWhile)
    ultimately have "\<not> is_space (hd (rev t))" using False by (simp add: hd_rev)
    then show ?thesis by (simp add: no_leading_iff)
  qed
  show ?thesis
    unfolding trimmed_from_def st
    using s u sa sb tr ld by (intro exI [of _ a] exI [of _ "rev b"]) simp
qed

lemma key_value_trimmed:
  "trimmed_from (fst (key_value line)) (takeWhile (\<lambda>c. c \<noteq> CHR ''='') line)
   \<and> trimmed_from (snd (key_value line)) (tl (dropWhile (\<lambda>c. c \<noteq> CHR ''='') line))"
  by (simp add: key_value_def strip_trimmed)

lemma split_on_not_Nil: "split_on c s \<noteq> []"
  by (induction s) (auto split: list.split)

lemma join_on_Cons: "ls \<noteq> [] \<Longrightarrow> join_on c (l # ls) = l @ c # join_on c ls"
  by (cases ls) simp_all

lemma join_on_Cons_Cons: "join_on c ((x # w) # ws) = x # join_on c (w # ws)"
  by (cases ws) simp_all

lemma join_split_on: "join_on c (split_on c s) = s"
proof (induction s)
  case Nil
  show ?case by simp
next
  case (Cons x xs)
  obtain w ws where sp: "split_on c xs = w # ws"
    using split_on_not_Nil [of c xs] by (cases "split_on c xs") auto
  show ?case
  proof (cases "x = c")
    case True
    then show ?thesis using Cons.IH split_on_not_Nil [of c xs] by (simp add: join_on_Cons)
  next
    case False
    then show ?thesis using Cons.IH sp by (simp add: join_on_Cons_Cons)
  qed
qed

lemma split_on_free: "c \<notin> set (concat (split_on c s))"
proof (induction s)
  case Nil
  show ?case by simp
next
  case (Cons x xs)
  obtain w ws where sp: "split_on c xs = w # ws"
    using split_on_not_Nil [of c xs] by (cases "split_on c xs") auto
  show ?case using Cons.IH sp by (cases "x = c") auto
qed

text \<open>
  C7. The dump is cut into lines at the newlines: the lines joined with newlines are
  the dump, and no line holds a newline. The resulting map is the one of the lines
  that hold \<^verbatim>\<open>=\<close>, each cut at its first \<^verbatim>\<open>=\<close>, a later line winning over an
  earlier one with the same key; key and value of a line are the text before and
  after its first \<^verbatim>\<open>=\<close> without the whitespace around them. The log grows by exactly
  one warning per non-empty line without \<^verbatim>\<open>=\<close>, in order, and the parse always
  returns. The dump \<^verbatim>\<open>SAPDBHOST=host1\nfoo\nrsdb/dbid=T01\<close> gives the two
  parameters and the one warning for \<^verbatim>\<open>foo\<close>; a dump with tabs, blanks and a
  carriage return around keys and values gives the trimmed keys and values.
\<close>

theorem parse_parameters_dump:
  "join_on CHR 0x0A (split_on CHR 0x0A s) = s
   \<and> CHR 0x0A \<notin> set (concat (split_on CHR 0x0A s))
   \<and> map_of (fst (parse_parameters s L)) =
     map_of (rev (map key_value (filter has_eq (split_on CHR 0x0A s))))
   \<and> trimmed_from (fst (key_value line)) (takeWhile (\<lambda>c. c \<noteq> CHR ''='') line)
   \<and> trimmed_from (snd (key_value line)) (tl (dropWhile (\<lambda>c. c \<noteq> CHR ''='') line))
   \<and> snd (parse_parameters s L) =
     L @ map malformed_warning (filter malformed (split_on CHR 0x0A s))
   \<and> parse_parameters ''SAPDBHOST=host1\<newline>foo\<newline>rsdb/dbid=T01'' [] =
     ([(''SAPDBHOST'', ''host1''), (''rsdb/dbid'', ''T01'')],
      [(WARNING, ''Cannot determine key/value of parameter '' @ [CHR 0x27] @ ''foo'' @ [CHR 0x27])])
   \<and> parse_parameters
       ([CHR 0x09] @ ''SAPDBHOST = host 1 '' @ [CHR 0x0D, CHR 0x0A] @ ''  rsdb/dbid=T01=x'' @ [CHR 0x0A]
          @ '' foo '') [] =
     ([(''SAPDBHOST'', ''host 1''), (''rsdb/dbid'', ''T01=x'')],
      [(WARNING, ''Cannot determine key/value of parameter '' @ [CHR 0x27] @ '' foo '' @ [CHR 0x27])])"
proof -
  have e1: "parse_parameters ''SAPDBHOST=host1\<newline>foo\<newline>rsdb/dbid=T01'' [] =
     ([(''SAPDBHOST'', ''host1''), (''rsdb/dbid'', ''T01'')],
      [(WARNING, ''Cannot determine key/value of parameter '' @ [CHR 0x27] @ ''foo'' @ [CHR 0x27])])"
    by code_simp
  have e2: "parse_parameters
       ([CHR 0x09] @ ''SAPDBHOST = host 1 '' @ [CHR 0x0D, CHR 0x0A] @ ''  rsdb/dbid=T01=x'' @ [CHR 0x0A]
          @ '' foo '') [] =
     ([(''SAPDBHOST'', ''host 1''), (''rsdb/dbid'', ''T01=x'')],
      [(WARNING, ''Cannot determine key/value of parameter '' @ [CHR 0x27] @ '' foo '' @ [CHR 0x27])])"
    by code_simp
  have m: "map_of (fst (parse_parameters s L)) =
     map_of (rev (map key_value (filter has_eq (split_on CHR 0x0A s))))"
    by (simp add: parse_parameters_def fold_parse_line map_of_fold_update)
  have w: "snd (parse_parameters s L) =
     L @ map malformed_warning (filter malformed (split_on CHR 0x0A s))"
    by (simp add: parse_parameters_def fold_parse_line)
  from join_split_on [of "CHR 0x0A" s] split_on_free [of "CHR 0x0A" s] m
    key_value_trimmed [of line] w e1 e2
  show ?thesis by blast
qed

subsection \<open>The two early exits\<close>

text \<open>
  C5. When the InstanceLister returns an empty result, \<^verbatim>\<open>get_system_data\<close> returns
  the empty mapping without raising, leaves the store as it is, and logs, after its
  two debug lines, one warning that names the system and the minion's FQDN.
\<close>

theorem empty_discovery_returns_empty:
  assumes "list_instances E sid username password (\<not> verify) = []"
  shows "get_system_data E sid username password verify =
           (Inr empty_system_data, store E,
            [(DEBUG, ''Running function''),
             (DEBUG, ''Getting instances for system '' @ sid),
             (WARNING, ''No instances found for '' @ sid @ '' on '' @ grains_fqdn E)])"
  using assms by (simp add: get_system_data_def log_debug_def log_warning_def)

theorem empty_discovery_returns_empty_witness:
  "get_system_data (demo_env [] [] (\<lambda>a. mk_inst [] 0 []) (True, [])) ''T01'' ''sapadm'' ''pw'' True =
     (Inr empty_system_data, (\<lambda>a. mk_inst [] 0 []),
      [(DEBUG, ''Running function''),
       (DEBUG, ''Getting instances for system T01''),
       (WARNING, ''No instances found for T01 on minion.example.org'')])"
  using empty_discovery_returns_empty
          [of "demo_env [] [] (\<lambda>a. mk_inst [] 0 []) (True, [])" "''T01''" "''sapadm''" "''pw''" True]
  by (simp add: demo_env_def)

text \<open>
  C4. When instance discovery returns a non-empty result and the instance-detail
  fetch, called with the first discovered instance's number and the FQDN derived
  from the first discovered hostname and the domain grain, returns an empty result,
  \<^verbatim>\<open>get_system_data\<close> raises \<^verbatim>\<open>Exception\<close> with a message that contains the system
  id and that FQDN.
\<close>

theorem empty_details_raise:
  assumes "list_instances E sid username password (\<not> verify) = (hostname, number) # found"
    and "get_system_instance_list E number (hostname @ ''.'' @ grains_domain E)
           username password verify = []"
  shows "fst (get_system_data E sid username password verify) =
           Inl (Exception (''No instances found for '' @ sid @ '' on ''
                             @ hostname @ ''.'' @ grains_domain E))
         \<and> sublist sid (''No instances found for '' @ sid @ '' on ''
                             @ hostname @ ''.'' @ grains_domain E)
         \<and> sublist (hostname @ ''.'' @ grains_domain E)
             (''No instances found for '' @ sid @ '' on '' @ hostname @ ''.'' @ grains_domain E)"
proof -
  have "sublist sid (''No instances found for '' @ sid @ ('' on '' @ hostname @ ''.'' @ grains_domain E))"
    by (rule sublist_appendI)
  moreover have "sublist (hostname @ ''.'' @ grains_domain E)
     ((''No instances found for '' @ sid @ '' on '') @ (hostname @ ''.'' @ grains_domain E) @ [])"
    by (rule sublist_appendI)
  ultimately show ?thesis
    using assms by (simp add: get_system_data_def Let_def)
qed

theorem empty_details_raise_witness:
  "fst (get_system_data (demo_env [(''h1'', 0)] [] (\<lambda>a. mk_inst [] 0 []) (True, []))
          ''T01'' ''sapadm'' ''pw'' True) =
     Inl (Exception ''No instances found for T01 on h1.example.org'')"
  using empty_details_raise
          [of "demo_env [(''h1'', 0)] [] (\<lambda>a. mk_inst [] 0 []) (True, [])" "''T01''" "''sapadm''"
              "''pw''" True "''h1''" 0 "[]"]
  by (simp add: demo_env_def)

subsection \<open>Instance type\<close>

text \<open>The port entries write only the two port keys of the instance dict.\<close>

lemma port_entry_type:
  "i_type (fst (snd (port_entry label k v inst0 L))) = i_type inst0"
  by (simp add: port_entry_def split: prod.split sum.split option.split)

lemma port_entries_type:
  "i_type (fst (snd (port_entries pre label ps inst0 L))) = i_type inst0"
proof (induction ps arbitrary: inst0 L)
  case Nil
  then show ?case by simp
next
  case (Cons kv ps)
  obtain k v where kv: "kv = (k, v)" by (cases kv)
  obtain r2 i2 L2 where pe: "port_entry label k v inst0 L = (r2, i2, L2)"
    by (cases "port_entry label k v inst0 L")
  have t: "i_type i2 = i_type inst0"
    using port_entry_type [of label k v inst0 L] pe by simp
  show ?case
    using Cons.IH [of i2 L2] Cons.IH [of inst0 L] t
    by (cases r2) (simp_all add: kv pe)
qed


lemma abap_branch_type:
  "i_type (fst (snd (abap_branch E username password verify nr ifqdn inst0 parameters system_data L)))
     = Some ''ABAP''"
proof (cases parameters)
  case None
  then show ?thesis by (simp add: abap_branch_def Let_def)
next
  case (Some ps)
  have "i_type (fst (snd (case port_entries ''icm/server_port_'' ''ICM'' ps
            (inst0\<lparr>i_type := Some ''ABAP''\<rparr>) L' of
               (Some e, instance1, L5) \<Rightarrow> (Inl e, instance1, L5)
             | (None, instance1, L5) \<Rightarrow> (Inr (sd :: 'a system_data), instance1, L5)))) = Some ''ABAP''"
    for L' sd
  proof -
    obtain r i1 L1 where pe: "port_entries ''icm/server_port_'' ''ICM'' ps
            (inst0\<lparr>i_type := Some ''ABAP''\<rparr>) L' = (r, i1, L1)"
      by (cases "port_entries ''icm/server_port_'' ''ICM'' ps (inst0\<lparr>i_type := Some ''ABAP''\<rparr>) L'")
    have "i_type i1 = Some ''ABAP''"
      using port_entries_type [of "''icm/server_port_''" "''ICM''" ps "inst0\<lparr>i_type := Some ''ABAP''\<rparr>" L'] pe
      by simp
    then show ?thesis by (cases r) (simp_all add: pe)
  qed
  then show ?thesis
    by (simp add: Some abap_branch_def Let_def case_prod_unfold)
qed

lemma ms_ports_type:
  "i_type (fst (snd (ms_ports E sid nr ifqdn inst0 parameters system_data L))) = Some ''ASCS''"
proof -
  let ?L1 = "log_debug ''Adding messageserver port''
                 (log_debug ''Retrieving Ports''
                    (log_debug ''Processing MESSAGESERVER instance'' L))"
  obtain r2 L2 where ms: "msport E sid nr [(''host'', ifqdn)] ?L1 = (r2, L2)"
    by (cases "msport E sid nr [(''host'', ifqdn)] ?L1")
  show ?thesis
  proof (cases r2)
    case (Inl e)
    then show ?thesis by (simp add: ms_ports_def Let_def ms)
  next
    case (Inr message_server)
    show ?thesis
    proof (cases parameters)
      case None
      then show ?thesis by (simp add: ms_ports_def Let_def ms Inr)
    next
      case (Some ps)
      obtain r i1 L3 where pe: "port_entries ''ms/server_port_'' ''MS'' ps
            (inst0\<lparr>i_type := Some ''ASCS''\<rparr>) L2 = (r, i1, L3)"
        by (cases "port_entries ''ms/server_port_'' ''MS'' ps (inst0\<lparr>i_type := Some ''ASCS''\<rparr>) L2")
      have "i_type i1 = Some ''ASCS''"
        using port_entries_type [of "''ms/server_port_''" "''MS''" ps "inst0\<lparr>i_type := Some ''ASCS''\<rparr>" L2] pe
        by simp
      then show ?thesis
        by (cases r) (simp_all add: ms_ports_def Let_def ms Inr Some pe)
    qed
  qed
qed

lemma ms_branch_type:
  "i_type (fst (snd (ms_branch E sid verify nr ifqdn inst0 parameters system_data L))) = Some ''ASCS''"
proof -
  obtain r i1 L1 where mp: "ms_ports E sid nr ifqdn inst0 parameters system_data L = (r, i1, L1)"
    by (cases "ms_ports E sid nr ifqdn inst0 parameters system_data L")
  have t: "i_type i1 = Some ''ASCS''"
    using ms_ports_type [of E sid nr ifqdn inst0 parameters system_data L] mp by simp
  show ?thesis
  proof (cases r)
    case (Inl e)
    then show ?thesis by (simp add: ms_branch_def mp t)
  next
    case (Inr sd1)
    obtain r2 L2 where lg: "logon_groups E verify sd1 L1 = (r2, L2)"
      by (cases "logon_groups E verify sd1 L1")
    show ?thesis by (simp add: ms_branch_def mp Inr lg t)
  qed
qed

text \<open>
  C6. Whatever the branch does afterwards, and also when it raises, the type written
  to the instance dict is the one of the first entry of the precedence list ABAP,
  WEBDISP, J2EE (JAVA), TREX, HDB, MESSAGESERVER (ASCS) whose feature is among the
  instance's features, and UNKNOWN when there is none. In particular an instance with
  both ABAP and MESSAGESERVER among its features gets the type ABAP.
\<close>

theorem classification_precedence:
  "i_type (fst (snd (instance_type E sid username password verify nr ifqdn inst0 parameters
                       system_data L)))
     = Some (spec_classify (i_features inst0))
   \<and> (''ABAP'' \<in> set (i_features inst0) \<and> ''MESSAGESERVER'' \<in> set (i_features inst0) \<longrightarrow>
        i_type (fst (snd (instance_type E sid username password verify nr ifqdn inst0 parameters
                            system_data L))) = Some ''ABAP'')"
proof -
  have abap: "spec_classify (i_features inst0) = ''ABAP''" if "''ABAP'' \<in> set (i_features inst0)"
    using that by (simp add: spec_classify_def precedence_def)
  have main: "i_type (fst (snd (instance_type E sid username password verify nr ifqdn inst0
                                  parameters system_data L)))
                = Some (spec_classify (i_features inst0))"
    by (simp add: instance_type_def Let_def abap_branch_type ms_branch_type
          spec_classify_def precedence_def)
  show ?thesis using main abap by simp
qed

theorem classification_precedence_witness:
  "''ABAP'' \<in> set [''MESSAGESERVER'', ''ABAP'']
   \<and> ''MESSAGESERVER'' \<in> set [''MESSAGESERVER'', ''ABAP'']
   \<and> i_type (fst (snd (instance_type (demo_env [] [] (\<lambda>a. mk_inst [] 0 []) (True, []))
                         ''T01'' ''sapadm'' ''pw'' True 0 ''h1.example.org''
                         (mk_inst ''h1'' 0 [''MESSAGESERVER'', ''ABAP'']) None
                         empty_system_data []))) = Some ''ABAP''"
  using classification_precedence
          [of "demo_env [] [] (\<lambda>a. mk_inst [] 0 []) (True, [])" "''T01''" "''sapadm''" "''pw''"
              True 0 "''h1.example.org''" "mk_inst ''h1'' 0 [''MESSAGESERVER'', ''ABAP'']" None
              empty_system_data "[]"]
  by (simp add: mk_inst_def spec_classify_def precedence_def)

subsection \<open>Message-server port defaults\<close>

lemma msport_default:
  assumes "fst (file_grep E ''/etc/services'' (''sapms'' @ sid)) \<noteq> 0"
  shows "msport E sid nr [(''host'', ifqdn)] L =
           (Inr [(''host'', ifqdn), (''msport'', ''36'' @ fmt02d nr)],
            log_debug (''Could not find message server port in /etc/services, using default ''
                         @ ''36'' @ fmt02d nr) L)"
proof -
  obtain retcode stdout where g: "file_grep E ''/etc/services'' (''sapms'' @ sid) = (retcode, stdout)"
    by (cases "file_grep E ''/etc/services'' (''sapms'' @ sid)")
  with assms have "retcode \<noteq> 0" by simp
  then show ?thesis unfolding msport_def g by simp
qed

lemma msport_shape:
  assumes "msport E sid nr [(''host'', ifqdn)] L = (Inr message_server, L2)"
  shows "\<exists>p. message_server = [(''host'', ifqdn), (''msport'', p)]"
proof -
  obtain retcode stdout where g: "file_grep E ''/etc/services'' (''sapms'' @ sid) = (retcode, stdout)"
    by (cases "file_grep E ''/etc/services'' (''sapms'' @ sid)")
  show ?thesis
  proof (cases "retcode = 0")
    case False
    then have "fst (file_grep E ''/etc/services'' (''sapms'' @ sid)) \<noteq> 0" using g by simp
    from msport_default [OF this, of nr ifqdn L] assms show ?thesis by simp
  next
    case True
    show ?thesis
      using assms unfolding msport_def g prod.case True
      by (auto split: list.splits)
  qed
qed

lemma digit_char_0: "digit_char 0 = CHR ''0''"
  by (simp add: digit_char_def)

lemma fmt02d_two_digits:
  assumes "0 \<le> nr" and "nr < 100"
  shows "fmt02d nr = [digit_char (nr div 10), digit_char (nr mod 10)]"
proof (cases "nr < 10")
  case True
  with assms show ?thesis
    by (simp add: fmt02d_def show_int_def show_digits.simps [of nr] digit_char_0)
next
  case False
  with assms have "nr div 10 < 10" by simp
  with False assms show ?thesis
    by (simp add: fmt02d_def show_int_def show_digits.simps [of nr]
          show_digits.simps [of "nr div 10"])
qed

lemma digit_chars: "map digit_char [0, 1, 2, 3, 4, 5, 6, 7, 8, 9] = ''0123456789''"
  by (simp add: digit_char_def)

text \<open>
  C8. For a MESSAGESERVER instance with number \<open>nr\<close>, whenever the port part of the
  branch (lines 218 to 279) completes, the message-server dict it appends to
  \<^verbatim>\<open>message_servers\<close> has the keys \<^verbatim>\<open>host\<close>, \<^verbatim>\<open>msport\<close> and \<^verbatim>\<open>httpport\<close>;
  \<^verbatim>\<open>httpport\<close> is \<^verbatim>\<open>81\<close> followed by the formatted number, and the last log record
  is the warning that names this default. This holds for every parameter map and
  every result of the grep, so in particular when neither an HTTP nor an HTTPS
  \<^verbatim>\<open>ms/server_port_\<close> parameter was found. When the grep for \<^verbatim>\<open>sapms<SID>\<close> fails
  (a return code other than 0), \<^verbatim>\<open>msport\<close> is \<^verbatim>\<open>36\<close> followed by the formatted
  number. The formatted number of an instance number from 0 to 99 is its two decimal
  digits, tens first, a zero for the tens below 10. For number 1 the values are
  \<^verbatim>\<open>3601\<close> and \<^verbatim>\<open>8101\<close>; a whole run on that instance logs both defaults
  before it raises at the logon groups.
\<close>

theorem message_server_port_defaults:
  "(ms_ports E sid nr ifqdn inst0 parameters system_data L = (Inr system_data1, inst1, L1) \<longrightarrow>
      (\<exists>p. sd_message_servers system_data1 =
              Some ((case sd_message_servers system_data of None \<Rightarrow> [] | Some l \<Rightarrow> l)
                    @ [[(''host'', ifqdn), (''msport'', p), (''httpport'', ''81'' @ fmt02d nr)]])
           \<and> (fst (file_grep E ''/etc/services'' (''sapms'' @ sid)) \<noteq> 0 \<longrightarrow>
                p = ''36'' @ fmt02d nr))
      \<and> last L1 = (WARNING, ''Could not determine HTTP / HTTPS port of message server, ''
                               @ ''setting to default '' @ ''81'' @ fmt02d nr))
   \<and> (0 \<le> nr \<and> nr < 100 \<longrightarrow> fmt02d nr = [digit_char (nr div 10), digit_char (nr mod 10)])
   \<and> map digit_char [0, 1, 2, 3, 4, 5, 6, 7, 8, 9] = ''0123456789''"
proof -
  have main: "(\<exists>p. sd_message_servers system_data1 =
              Some ((case sd_message_servers system_data of None \<Rightarrow> [] | Some l \<Rightarrow> l)
                    @ [[(''host'', ifqdn), (''msport'', p), (''httpport'', ''81'' @ fmt02d nr)]])
           \<and> (fst (file_grep E ''/etc/services'' (''sapms'' @ sid)) \<noteq> 0 \<longrightarrow>
                p = ''36'' @ fmt02d nr))
      \<and> last L1 = (WARNING, ''Could not determine HTTP / HTTPS port of message server, ''
                               @ ''setting to default '' @ ''81'' @ fmt02d nr)"
    if run: "ms_ports E sid nr ifqdn inst0 parameters system_data L = (Inr system_data1, inst1, L1)"
  proof -
    obtain r2 L2 where ms: "msport E sid nr [(''host'', ifqdn)] (log_debug ''Adding messageserver port''
                 (log_debug ''Retrieving Ports''
                    (log_debug ''Processing MESSAGESERVER instance'' L))) = (r2, L2)"
      by (cases "msport E sid nr [(''host'', ifqdn)] (log_debug ''Adding messageserver port''
                 (log_debug ''Retrieving Ports''
                    (log_debug ''Processing MESSAGESERVER instance'' L)))")
    show ?thesis
    proof (cases r2)
      case (Inl e)
      show ?thesis
        using run unfolding ms_ports_def Let_def ms Inl prod.case sum.case by simp
    next
      case (Inr message_server)
      obtain p where shape: "message_server = [(''host'', ifqdn), (''msport'', p)]"
        using msport_shape ms Inr by blast
      have dflt: "p = ''36'' @ fmt02d nr"
        if "fst (file_grep E ''/etc/services'' (''sapms'' @ sid)) \<noteq> 0"
        using msport_default [OF that, of nr ifqdn "log_debug ''Adding messageserver port''
                 (log_debug ''Retrieving Ports''
                    (log_debug ''Processing MESSAGESERVER instance'' L))"] ms Inr shape
        by simp
      show ?thesis
      proof (cases parameters)
        case None
        show ?thesis
          using run unfolding ms_ports_def Let_def ms Inr prod.case sum.case None option.case
          by simp
      next
        case (Some ps)
        obtain r i2 L3 where pe: "port_entries ''ms/server_port_'' ''MS'' ps
              (inst0\<lparr>i_type := Some ''ASCS''\<rparr>) L2 = (r, i2, L3)"
          by (cases "port_entries ''ms/server_port_'' ''MS'' ps (inst0\<lparr>i_type := Some ''ASCS''\<rparr>) L2")
        show ?thesis
        proof (cases r)
          case (Some e)
          show ?thesis
            using run
            unfolding ms_ports_def Let_def ms Inr prod.case sum.case \<open>parameters = Some ps\<close>
              option.case pe Some
            by simp
        next
          case None
          have res: "system_data1 = system_data\<lparr>sd_message_servers :=
                            Some ((case sd_message_servers system_data of None \<Rightarrow> [] | Some l \<Rightarrow> l)
                                  @ [AList.update ''httpport'' (''81'' @ fmt02d nr) message_server])\<rparr>
                     \<and> L1 = log_warning (''Could not determine HTTP / HTTPS port of message server, ''
                                    @ ''setting to default '' @ ''81'' @ fmt02d nr) L3"
            using run
            unfolding ms_ports_def Let_def ms Inr prod.case sum.case \<open>parameters = Some ps\<close>
              option.case pe None
            by (simp add: shape)
          have "sd_message_servers system_data1 =
              Some ((case sd_message_servers system_data of None \<Rightarrow> [] | Some l \<Rightarrow> l)
                    @ [[(''host'', ifqdn), (''msport'', p), (''httpport'', ''81'' @ fmt02d nr)]])"
            using res by (simp add: shape)
          moreover have "last L1 = (WARNING, ''Could not determine HTTP / HTTPS port of message server, ''
                               @ ''setting to default '' @ ''81'' @ fmt02d nr)"
            using res by (simp add: log_warning_def)
          ultimately show ?thesis using dflt by blast
        qed
      qed
    qed
  qed
  from main fmt02d_two_digits [of nr] digit_chars show ?thesis by blast
qed


theorem message_server_port_defaults_witness:
  "(\<exists>system_data1 inst1 L1.
      ms_ports (demo_env [] [] (\<lambda>a. mk_inst [] 0 []) (True, [])) ''T01'' 1 ''h1.example.org''
        (mk_inst ''h1'' 1 [''MESSAGESERVER'']) (Some []) empty_system_data []
        = (Inr system_data1, inst1, L1)
      \<and> fst (file_grep (demo_env [] [] (\<lambda>a. mk_inst [] 0 []) (True, [])) ''/etc/services''
               (''sapms'' @ ''T01'')) \<noteq> 0
      \<and> sd_message_servers system_data1 =
           Some [[(''host'', ''h1.example.org''), (''msport'', ''3601''), (''httpport'', ''8101'')]]
      \<and> last L1 = (WARNING, ''Could not determine HTTP / HTTPS port of message server, setting to default 8101''))
   \<and> (0::int) \<le> 1 \<and> (1::int) < 100 \<and> fmt02d 1 = ''01''
   \<and> (DEBUG, ''Could not find message server port in /etc/services, using default 3601'')
       \<in> set (snd (snd (get_system_data
             (demo_env [(''h1'', 1)] [0] (\<lambda>a. mk_inst ''h1'' 1 [''MESSAGESERVER'']) (True, []))
             ''T01'' ''sapadm'' ''pw'' True)))
   \<and> (WARNING, ''Could not determine HTTP / HTTPS port of message server, setting to default 8101'')
       \<in> set (snd (snd (get_system_data
             (demo_env [(''h1'', 1)] [0] (\<lambda>a. mk_inst ''h1'' 1 [''MESSAGESERVER'']) (True, []))
             ''T01'' ''sapadm'' ''pw'' True)))"
proof -
  let ?E = "demo_env [] [] (\<lambda>a. mk_inst [] 0 []) (True, []) :: string env"
  let ?i = "mk_inst ''h1'' 1 [''MESSAGESERVER'']"
  have g: "fst (file_grep ?E ''/etc/services'' (''sapms'' @ ''T01'')) \<noteq> 0"
    by (simp add: demo_env_def)
  obtain r inst1 L1 where run:
    "ms_ports ?E ''T01'' 1 ''h1.example.org'' ?i (Some []) empty_system_data [] = (r, inst1, L1)"
    by (cases "ms_ports ?E ''T01'' 1 ''h1.example.org'' ?i (Some []) empty_system_data []")
  have "\<exists>sd. r = Inr sd"
    using run unfolding ms_ports_def Let_def msport_default [OF g] by (auto split: if_splits)
  then obtain sd where r: "r = Inr sd" by blast
  note t = message_server_port_defaults
             [of ?E "''T01''" 1 "''h1.example.org''" ?i "Some []" empty_system_data "[]" sd inst1 L1]
  note t1 = t [THEN conjunct1, rule_format, OF run [unfolded r]]
  note t2 = t [THEN conjunct2, THEN conjunct1]
  have f: "fmt02d 1 = ''01''"
    using t2 by (simp add: digit_char_def)
  from t1 obtain p where
    p1: "sd_message_servers sd =
              Some ((case sd_message_servers (empty_system_data :: string system_data) of
                       None \<Rightarrow> [] | Some l \<Rightarrow> l)
                    @ [[(''host'', ''h1.example.org''), (''msport'', p), (''httpport'', ''81'' @ fmt02d 1)]])"
    and p2: "fst (file_grep ?E ''/etc/services'' (''sapms'' @ ''T01'')) \<noteq> 0 \<longrightarrow> p = ''36'' @ fmt02d 1"
    and w0: "last L1 = (WARNING, ''Could not determine HTTP / HTTPS port of message server, ''
                               @ ''setting to default '' @ ''81'' @ fmt02d 1)"
    by blast
  have p3: "p = ''3601''" using p2 g f by simp
  have m: "sd_message_servers sd =
           Some [[(''host'', ''h1.example.org''), (''msport'', ''3601''), (''httpport'', ''8101'')]]"
    using p1 p3 f by (simp add: empty_system_data_def)
  have w: "last L1 = (WARNING, ''Could not determine HTTP / HTTPS port of message server, setting to default 8101'')"
    using w0 f by simp
  have ex: "\<exists>system_data1 inst1 L1.
      ms_ports ?E ''T01'' 1 ''h1.example.org'' ?i (Some []) empty_system_data []
        = (Inr system_data1, inst1, L1)
      \<and> fst (file_grep ?E ''/etc/services'' (''sapms'' @ ''T01'')) \<noteq> 0
      \<and> sd_message_servers system_data1 =
           Some [[(''host'', ''h1.example.org''), (''msport'', ''3601''), (''httpport'', ''8101'')]]
      \<and> last L1 = (WARNING, ''Could not determine HTTP / HTTPS port of message server, setting to default 8101'')"
    using run [unfolded r] g m w by blast
  have n: "(0::int) \<le> 1 \<and> (1::int) < 100" by simp
  have d: "(DEBUG, ''Could not find message server port in /etc/services, using default 3601'')
       \<in> set (snd (snd (get_system_data
             (demo_env [(''h1'', 1)] [0] (\<lambda>a. mk_inst ''h1'' 1 [''MESSAGESERVER'']) (True, []))
             ''T01'' ''sapadm'' ''pw'' True)))"
    by code_simp
  have d2: "(WARNING, ''Could not determine HTTP / HTTPS port of message server, setting to default 8101'')
       \<in> set (snd (snd (get_system_data
             (demo_env [(''h1'', 1)] [0] (\<lambda>a. mk_inst ''h1'' 1 [''MESSAGESERVER'']) (True, []))
             ''T01'' ''sapadm'' ''pw'' True)))"
    by code_simp
  from ex n f d d2 show ?thesis by blast
qed

subsection \<open>Port entries that raise\<close>

text \<open>
  C2. A port entry with \<^verbatim>\<open>PROT\<close> and no \<^verbatim>\<open>PORT\<close> is not skipped with a warning:
  \<^verbatim>\<open>int(port)\<close> at lines 192 and 258 runs before the test for a missing value and
  raises \<^verbatim>\<open>TypeError\<close>, for every key, instance and log. A \<^verbatim>\<open>PORT\<close> that is no
  integer raises \<^verbatim>\<open>ValueError\<close>, a sub-field without \<^verbatim>\<open>=\<close> raises
  \<^verbatim>\<open>IndexError\<close>. The exception leaves \<^verbatim>\<open>get_system_data\<close> for an ABAP instance
  with \<^verbatim>\<open>icm/server_port_0 = PROT=HTTP\<close>, and the port part of the MESSAGESERVER
  branch for \<^verbatim>\<open>ms/server_port_0 = PROT=HTTP\<close>.
\<close>

theorem port_entry_raises:
  "fst (port_entry label icm_k ''PROT=HTTP'' inst0 L) = Some TypeError
   \<and> fst (port_entry label icm_k ''PROT=HTTP,PORT=80a'' inst0 L) = Some ValueError
   \<and> fst (port_entry label icm_k ''PROT=HTTP,PORT'' inst0 L) = Some IndexError
   \<and> fst (get_system_data
            (demo_env [(''h1'', 0)] [0] (\<lambda>a. mk_inst ''h1'' 0 [''ABAP''])
               (True, ''icm/server_port_0=PROT=HTTP''))
            ''T01'' ''sapadm'' ''pw'' True) = Inl TypeError
   \<and> fst (ms_ports
            (demo_env [(''h1'', 0)] [0] (\<lambda>a. mk_inst ''h1'' 0 [''MESSAGESERVER'']) (True, []))
            ''T01'' 0 ''h1.example.org'' (mk_inst ''h1'' 0 [''MESSAGESERVER''])
            (Some [(''ms/server_port_0'', ''PROT=HTTP'')]) empty_system_data []) = Inl TypeError"
proof -
  have 1: "fst (port_entry label icm_k ''PROT=HTTP'' inst0 L) = Some TypeError"
    by (simp add: port_entry_def Let_def strip_def is_space_def)
  have 2: "fst (port_entry label icm_k ''PROT=HTTP,PORT=80a'' inst0 L) = Some ValueError"
    by (simp add: port_entry_def Let_def strip_def is_space_def py_int_def is_digit_def)
  have 3: "fst (port_entry label icm_k ''PROT=HTTP,PORT'' inst0 L) = Some IndexError"
    by (simp add: port_entry_def Let_def strip_def is_space_def)
  have 4: "fst (get_system_data
            (demo_env [(''h1'', 0)] [0] (\<lambda>a. mk_inst ''h1'' 0 [''ABAP''])
               (True, ''icm/server_port_0=PROT=HTTP''))
            ''T01'' ''sapadm'' ''pw'' True) = Inl TypeError"
    by code_simp
  have 5: "fst (ms_ports
            (demo_env [(''h1'', 0)] [0] (\<lambda>a. mk_inst ''h1'' 0 [''MESSAGESERVER'']) (True, []))
            ''T01'' 0 ''h1.example.org'' (mk_inst ''h1'' 0 [''MESSAGESERVER''])
            (Some [(''ms/server_port_0'', ''PROT=HTTP'')]) empty_system_data []) = Inl TypeError"
    by code_simp
  from 1 2 3 4 5 show ?thesis by blast
qed

subsection \<open>A failed parameter fetch\<close>

text \<open>
  C3. When the parameter fetch of the first instance fails, the warning is logged,
  but \<^verbatim>\<open>parameters\<close> is unbound, not empty: an ABAP instance raises
  \<^verbatim>\<open>UnboundLocalError\<close> at line 144, a MESSAGESERVER instance at line 241. When
  the fetch of a later instance fails, \<^verbatim>\<open>parameters\<close> still holds the map of the
  instance before: the ABAP instance 1 of \<open>stale_env\<close> takes \<^verbatim>\<open>db_host\<close> from the
  parameters of the J2EE instance 0.
\<close>

theorem failed_fetch_leaves_parameters:
  "fst (get_system_data
          (demo_env [(''h1'', 0)] [0] (\<lambda>a. mk_inst ''h1'' 0 [''ABAP'']) (False, []))
          ''T01'' ''sapadm'' ''pw'' True) = Inl (UnboundLocalError ''parameters'')
   \<and> (WARNING, ''Could not retrieve parameters'')
       \<in> set (snd (snd (get_system_data
          (demo_env [(''h1'', 0)] [0] (\<lambda>a. mk_inst ''h1'' 0 [''ABAP'']) (False, []))
          ''T01'' ''sapadm'' ''pw'' True)))
   \<and> fst (get_system_data
          (demo_env [(''h1'', 0)] [0] (\<lambda>a. mk_inst ''h1'' 0 [''MESSAGESERVER'']) (False, []))
          ''T01'' ''sapadm'' ''pw'' True) = Inl (UnboundLocalError ''parameters'')
   \<and> (case fst (get_system_data stale_env ''T01'' ''sapadm'' ''pw'' True) of
         Inl e \<Rightarrow> None
       | Inr system_data \<Rightarrow> sd_db_host system_data) = Some ''dbhost_of_instance_0''"
proof -
  have 1: "fst (get_system_data
          (demo_env [(''h1'', 0)] [0] (\<lambda>a. mk_inst ''h1'' 0 [''ABAP'']) (False, []))
          ''T01'' ''sapadm'' ''pw'' True) = Inl (UnboundLocalError ''parameters'')"
    by code_simp
  have 2: "(WARNING, ''Could not retrieve parameters'')
       \<in> set (snd (snd (get_system_data
          (demo_env [(''h1'', 0)] [0] (\<lambda>a. mk_inst ''h1'' 0 [''ABAP'']) (False, []))
          ''T01'' ''sapadm'' ''pw'' True)))"
    by code_simp
  have 3: "fst (get_system_data
          (demo_env [(''h1'', 0)] [0] (\<lambda>a. mk_inst ''h1'' 0 [''MESSAGESERVER'']) (False, []))
          ''T01'' ''sapadm'' ''pw'' True) = Inl (UnboundLocalError ''parameters'')"
    by code_simp
  have 4: "(case fst (get_system_data stale_env ''T01'' ''sapadm'' ''pw'' True) of
         Inl e \<Rightarrow> None
       | Inr system_data \<Rightarrow> sd_db_host system_data) = Some ''dbhost_of_instance_0''"
    by code_simp
  from 1 2 3 4 show ?thesis by blast
qed

subsection \<open>Logon groups\<close>

text \<open>A message-server dict without the key \<^verbatim>\<open>httpsport\<close> stops the probe loop
  with \<^verbatim>\<open>KeyError\<close> before any request is sent.\<close>

lemma probe_raises:
  assumes "map_of message_server ''host'' = Some h" and "map_of message_server ''httpsport'' = None"
  shows "probe E verify (message_server # rest) L = (Inl (KeyError ''httpsport''), L)"
proof -
  have "''httpsport'' \<notin> fst ` set message_server"
    using assms(2) by (simp add: map_of_eq_None_iff)
  then show ?thesis
    using assms by (simp add: lglist_url_def dict_get_def)
qed

text \<open>
  C1. The logon-group retrieval of a MESSAGESERVER instance raises
  \<^verbatim>\<open>KeyError('httpsport')\<close> at line 290 before it sends a request: the dicts in
  \<^verbatim>\<open>message_servers\<close> have the keys \<^verbatim>\<open>host\<close>, \<^verbatim>\<open>msport\<close> and \<^verbatim>\<open>httpport\<close> only
  (the ports of the \<^verbatim>\<open>ms/server_port_\<close> parameters go to the instance dict), and
  both URLs read \<^verbatim>\<open>message_server['httpsport']\<close>, outside the \<^verbatim>\<open>try\<close>. So
  \<^verbatim>\<open>get_system_data\<close> raises for a system with a MESSAGESERVER instance, with
  and without port parameters, with and without \<^verbatim>\<open>verify\<close>; no candidate is tried
  and \<^verbatim>\<open>logon_groups\<close> is never set to \<^verbatim>\<open>["SPACE"]\<close>.
\<close>

theorem logon_groups_raise:
  "fst (get_system_data
          (demo_env [(''h1'', 1)] [0] (\<lambda>a. mk_inst ''h1'' 1 [''MESSAGESERVER'']) (True, []))
          ''T01'' ''sapadm'' ''pw'' True) = Inl (KeyError ''httpsport'')
   \<and> fst (get_system_data
          (demo_env [(''h1'', 1)] [0] (\<lambda>a. mk_inst ''h1'' 1 [''MESSAGESERVER''])
             (True, ''ms/server_port_0=PROT=HTTP,PORT=8101\<newline>ms/server_port_1=PROT=HTTPS,PORT=44301''))
          ''T01'' ''sapadm'' ''pw'' False) = Inl (KeyError ''httpsport'')
   \<and> fst (logon_groups E verify
            (system_data\<lparr>sd_message_servers :=
               Some [[(''host'', ifqdn), (''msport'', p), (''httpport'', q)]]\<rparr>) L)
       = Inl (KeyError ''httpsport'')"
proof -
  have 1: "fst (get_system_data
          (demo_env [(''h1'', 1)] [0] (\<lambda>a. mk_inst ''h1'' 1 [''MESSAGESERVER'']) (True, []))
          ''T01'' ''sapadm'' ''pw'' True) = Inl (KeyError ''httpsport'')"
    by code_simp
  have 2: "fst (get_system_data
          (demo_env [(''h1'', 1)] [0] (\<lambda>a. mk_inst ''h1'' 1 [''MESSAGESERVER''])
             (True, ''ms/server_port_0=PROT=HTTP,PORT=8101\<newline>ms/server_port_1=PROT=HTTPS,PORT=44301''))
          ''T01'' ''sapadm'' ''pw'' False) = Inl (KeyError ''httpsport'')"
    by code_simp
  have 3: "fst (logon_groups E verify
            (system_data\<lparr>sd_message_servers :=
               Some [[(''host'', ifqdn), (''msport'', p), (''httpport'', q)]]\<rparr>) L)
       = Inl (KeyError ''httpsport'')"
  proof -
    have "probe E verify [[(''host'', ifqdn), (''msport'', p), (''httpport'', q)]] L'
            = (Inl (KeyError ''httpsport''), L')" for L'
      by (rule probe_raises [where h = ifqdn]) simp_all
    then show ?thesis
      by (simp add: logon_groups_def del: probe.simps)
  qed
  from 1 2 3 show ?thesis by blast
qed

subsection \<open>The host of the instance-properties fetch\<close>

lemma props_at_simps [simp]:
  "grains_fqdn (props_at f E) = grains_fqdn E"
  "grains_domain (props_at f E) = grains_domain E"
  "store (props_at f E) = store E"
  "list_instances (props_at f E) = list_instances E"
  "get_system_instance_list (props_at f E) = get_system_instance_list E"
  "parameter_value (props_at f E) = parameter_value E"
  "get_abap_component_list (props_at f E) = get_abap_component_list E"
  "file_grep (props_at f E) = file_grep E"
  "requests_get (props_at f E) = requests_get E"
  "repr_found (props_at f E) = repr_found E"
  "repr_insts (props_at f E) = repr_insts E"
  "repr_inst (props_at f E) = repr_inst E"
  "repr_comps (props_at f E) = repr_comps E"
  "repr_strs (props_at f E) = repr_strs E"
  "repr_data (props_at f E) = repr_data E"
  "get_instance_properties (props_at f E) nr g username password verify =
     get_instance_properties E nr f username password verify"
  by (simp_all add: props_at_def)

lemma probe_props_at: "probe (props_at f E) verify ms L = probe E verify ms L"
proof (induction ms arbitrary: L)
  case Nil
  show ?case by simp
next
  case (Cons m ms)
  show ?case unfolding probe.simps Cons.IH props_at_simps ..
qed

lemma logon_groups_props_at:
  "logon_groups (props_at f E) verify system_data L = logon_groups E verify system_data L"
  unfolding logon_groups_def probe_props_at props_at_simps ..

lemma msport_props_at: "msport (props_at f E) sid nr m L = msport E sid nr m L"
  unfolding msport_def props_at_simps ..

lemma ms_ports_props_at:
  "ms_ports (props_at f E) sid nr ifqdn inst0 parameters system_data L =
   ms_ports E sid nr ifqdn inst0 parameters system_data L"
  unfolding ms_ports_def msport_props_at ..

lemma ms_branch_props_at:
  "ms_branch (props_at f E) sid verify nr ifqdn inst0 parameters system_data L =
   ms_branch E sid verify nr ifqdn inst0 parameters system_data L"
  unfolding ms_branch_def ms_ports_props_at logon_groups_props_at ..

lemma abap_branch_props_at:
  "abap_branch (props_at f E) username password verify nr ifqdn inst0 parameters system_data L =
   abap_branch E username password verify nr ifqdn inst0 parameters system_data L"
  unfolding abap_branch_def read_components_def props_at_simps ..

lemma instance_type_props_at:
  "instance_type (props_at f E) sid username password verify nr ifqdn inst0 parameters system_data L =
   instance_type E sid username password verify nr ifqdn inst0 parameters system_data L"
  unfolding instance_type_def abap_branch_props_at ms_branch_props_at ..

lemma fetch_parameters_props_at:
  "fetch_parameters (props_at f E) username password verify nr ifqdn parameters L =
   fetch_parameters E username password verify nr ifqdn parameters L"
  unfolding fetch_parameters_def props_at_simps ..

lemma add_instance_props_at:
  "add_instance (props_at f E) username password verify f a nr inst0 system_data L =
   add_instance E username password verify f a nr inst0 system_data L"
  unfolding add_instance_def props_at_simps ..

lemma process_instance_props_at:
  "process_instance (props_at f E) sid username password verify domain f a inst0 parameters system_data L =
   process_instance E sid username password verify domain f a inst0 parameters system_data L"
  unfolding process_instance_def instance_type_props_at fetch_parameters_props_at
    add_instance_props_at props_at_simps ..

lemma loop_instances_props_at:
  "loop_instances (props_at f E) sid username password verify domain f refs parameters system_data H L =
   loop_instances E sid username password verify domain f refs parameters system_data H L"
proof (induction refs arbitrary: parameters system_data H L)
  case Nil
  show ?case by simp
next
  case (Cons a refs)
  show ?case unfolding loop_instances.simps process_instance_props_at Cons.IH ..
qed

subsection \<open>The instances mapping\<close>

text \<open>No branch writes to \<^verbatim>\<open>system_data["instances"]\<close>.\<close>

lemma read_steps_instances:
  "sd_instances (fst (read_db_host ps sd L)) = sd_instances sd"
  "sd_instances (fst (read_db_name ps sd L)) = sd_instances sd"
  "sd_instances (fst (read_components E username password verify nr ifqdn sd L)) = sd_instances sd"
  by (simp_all add: read_db_host_def read_db_name_def read_components_def
        split: option.split prod.split)

lemma abap_branch_instances:
  assumes "abap_branch E username password verify nr ifqdn inst0 parameters sd L = (Inr sd1, i1, L1)"
  shows "sd_instances sd1 = sd_instances sd"
proof (cases parameters)
  case None
  with assms show ?thesis by (simp add: abap_branch_def Let_def)
next
  case (Some ps)
  define sd3 where "sd3 = fst (read_components E username password verify nr ifqdn
      (fst (read_db_name ps (fst (read_db_host ps sd
          (log_debug ''Retrieving DB host'' (log_debug ''Processing ABAP instance'' L))))
          (snd (read_db_host ps sd
          (log_debug ''Retrieving DB host'' (log_debug ''Processing ABAP instance'' L))))))
      (snd (read_db_name ps (fst (read_db_host ps sd
          (log_debug ''Retrieving DB host'' (log_debug ''Processing ABAP instance'' L))))
          (snd (read_db_host ps sd
          (log_debug ''Retrieving DB host'' (log_debug ''Processing ABAP instance'' L)))))))"
  have inst: "sd_instances sd3 = sd_instances sd"
    unfolding sd3_def by (simp add: read_steps_instances)
  have "\<exists>Lx. (case port_entries ''icm/server_port_'' ''ICM'' ps (inst0\<lparr>i_type := Some ''ABAP''\<rparr>) Lx of
               (Some e, instance1, L5) \<Rightarrow> (Inl e, instance1, L5)
             | (None, instance1, L5) \<Rightarrow> (Inr sd3, instance1, L5)) = (Inr sd1, i1, L1)"
    using assms unfolding abap_branch_def Let_def Some option.case case_prod_unfold sd3_def
    by blast
  then obtain Lx where c: "(case port_entries ''icm/server_port_'' ''ICM'' ps (inst0\<lparr>i_type := Some ''ABAP''\<rparr>) Lx of
               (Some e, instance1, L5) \<Rightarrow> (Inl e, instance1, L5)
             | (None, instance1, L5) \<Rightarrow> (Inr sd3, instance1, L5)) = (Inr sd1, i1, L1)"
    by blast
  obtain r i2 L2 where pe:
    "port_entries ''icm/server_port_'' ''ICM'' ps (inst0\<lparr>i_type := Some ''ABAP''\<rparr>) Lx = (r, i2, L2)"
    by (cases "port_entries ''icm/server_port_'' ''ICM'' ps (inst0\<lparr>i_type := Some ''ABAP''\<rparr>) Lx")
  have "sd1 = sd3" using c unfolding pe by (cases r) simp_all
  with inst show ?thesis by simp
qed

lemma ms_ports_instances:
  assumes "ms_ports E sid nr ifqdn inst0 parameters sd L = (Inr sd1, i1, L1)"
  shows "sd_instances sd1 = sd_instances sd"
proof -
  obtain r2 L2 where ms: "msport E sid nr [(''host'', ifqdn)] (log_debug ''Adding messageserver port''
                 (log_debug ''Retrieving Ports''
                    (log_debug ''Processing MESSAGESERVER instance'' L))) = (r2, L2)"
    by (cases "msport E sid nr [(''host'', ifqdn)] (log_debug ''Adding messageserver port''
                 (log_debug ''Retrieving Ports''
                    (log_debug ''Processing MESSAGESERVER instance'' L)))")
  show ?thesis
  proof (cases r2)
    case (Inl e)
    show ?thesis
      using assms unfolding ms_ports_def Let_def ms Inl prod.case sum.case by simp
  next
    case (Inr message_server)
    show ?thesis
    proof (cases parameters)
      case None
      show ?thesis
        using assms unfolding ms_ports_def Let_def ms Inr prod.case sum.case None option.case
        by simp
    next
      case (Some ps)
      obtain r i2 L3 where pe: "port_entries ''ms/server_port_'' ''MS'' ps
            (inst0\<lparr>i_type := Some ''ASCS''\<rparr>) L2 = (r, i2, L3)"
        by (cases "port_entries ''ms/server_port_'' ''MS'' ps (inst0\<lparr>i_type := Some ''ASCS''\<rparr>) L2")
      show ?thesis
      proof (cases r)
        case (Some e)
        show ?thesis
          using assms
          unfolding ms_ports_def Let_def ms Inr prod.case sum.case \<open>parameters = Some ps\<close>
            option.case pe Some
          by simp
      next
        case None
        show ?thesis
          using assms
          unfolding ms_ports_def Let_def ms Inr prod.case sum.case \<open>parameters = Some ps\<close>
            option.case pe None
          by (auto split: if_splits)
      qed
    qed
  qed
qed

lemma logon_groups_instances:
  assumes "logon_groups E verify sd L = (Inr sd1, L1)"
  shows "sd_instances sd1 = sd_instances sd"
proof (cases "sd_message_servers sd")
  case None
  with assms show ?thesis by (simp add: logon_groups_def)
next
  case (Some message_servers)
  obtain r L2 where pr:
    "probe E verify message_servers (log_debug ''Retrieving Logon Groups'' L) = (r, L2)"
    by (cases "probe E verify message_servers (log_debug ''Retrieving Logon Groups'' L)")
  show ?thesis
  proof (cases r)
    case (Inl e)
    show ?thesis
      using assms unfolding logon_groups_def Some option.case pr Inl prod.case sum.case by simp
  next
    case (Inr response)
    show ?thesis
      using assms unfolding logon_groups_def Some option.case pr Inr prod.case sum.case Let_def
      by (auto split: if_splits)
  qed
qed

lemma ms_branch_instances:
  assumes "ms_branch E sid verify nr ifqdn inst0 parameters sd L = (Inr sd1, i1, L1)"
  shows "sd_instances sd1 = sd_instances sd"
proof -
  obtain r i2 L2 where mp: "ms_ports E sid nr ifqdn inst0 parameters sd L = (r, i2, L2)"
    by (cases "ms_ports E sid nr ifqdn inst0 parameters sd L")
  show ?thesis
  proof (cases r)
    case (Inl e)
    show ?thesis using assms unfolding ms_branch_def mp Inl prod.case sum.case by simp
  next
    case (Inr sd2)
    obtain r3 L3 where lg: "logon_groups E verify sd2 L2 = (r3, L3)"
      by (cases "logon_groups E verify sd2 L2")
    have "r3 = Inr sd1"
      using assms unfolding ms_branch_def mp Inr prod.case sum.case lg by simp
    then have "sd_instances sd1 = sd_instances sd2"
      using logon_groups_instances lg by blast
    moreover have "sd_instances sd2 = sd_instances sd"
      using ms_ports_instances mp Inr by blast
    ultimately show ?thesis by simp
  qed
qed

lemma instance_type_instances:
  assumes "instance_type E sid username password verify nr ifqdn inst0 parameters sd L = (Inr sd1, i1, L1)"
  shows "sd_instances sd1 = sd_instances sd"
proof -
  consider (abap) "''ABAP'' \<in> set (i_features inst0)"
    | (ms) "''ABAP'' \<notin> set (i_features inst0)" "''WEBDISP'' \<notin> set (i_features inst0)"
           "''J2EE'' \<notin> set (i_features inst0)" "''TREX'' \<notin> set (i_features inst0)"
           "''HDB'' \<notin> set (i_features inst0)" "''MESSAGESERVER'' \<in> set (i_features inst0)"
    | (other) "''ABAP'' \<notin> set (i_features inst0)"
           "''WEBDISP'' \<in> set (i_features inst0) \<or> ''J2EE'' \<in> set (i_features inst0)
            \<or> ''TREX'' \<in> set (i_features inst0) \<or> ''HDB'' \<in> set (i_features inst0)
            \<or> ''MESSAGESERVER'' \<notin> set (i_features inst0)"
    by blast
  then show ?thesis
  proof cases
    case abap
    with assms show ?thesis
      unfolding instance_type_def Let_def using abap_branch_instances by (simp only: if_True)
  next
    case ms
    with assms show ?thesis
      unfolding instance_type_def Let_def using ms_branch_instances
      by (simp only: if_True if_False)
  next
    case other
    with assms show ?thesis
      unfolding instance_type_def Let_def by (auto split: if_splits)
  qed
qed

lemma add_instance_success:
  assumes "add_instance E username password verify fqdn a nr inst0 sd L = (Inr sd1, i1, L1)"
  shows "\<exists>m. sd_instances sd = Some m \<and> sd_instances sd1 = Some (AList.update nr a m)
             \<and> i_instance i1 = None
             \<and> i_name i1 = Some (case map_of (get_instance_properties E nr fqdn username password verify)
                                          ''INSTANCE_NAME'' of
                                    None \<Rightarrow> ''UNKOWN_INSTANCE_NAME'' | Some x \<Rightarrow> x)"
proof (cases "sd_instances sd")
  case None
  with assms show ?thesis by (simp add: add_instance_def Let_def)
next
  case (Some m)
  with assms show ?thesis by (auto simp add: add_instance_def Let_def)
qed

lemma process_instance_success:
  assumes "process_instance E sid username password verify domain fqdn a inst0 parameters sd L
             = (Inr (parameters1, sd1), i1, L1)"
  shows "\<exists>nr m. i_instance inst0 = Some nr \<and> sd_instances sd = Some m
             \<and> sd_instances sd1 = Some (AList.update nr a m) \<and> i_instance i1 = None
             \<and> i_name i1 = Some (case map_of (get_instance_properties E nr fqdn username password verify)
                                          ''INSTANCE_NAME'' of
                                    None \<Rightarrow> ''UNKOWN_INSTANCE_NAME'' | Some x \<Rightarrow> x)"
proof (cases "i_instance inst0")
  case None
  with assms show ?thesis by (simp add: process_instance_def Let_def)
next
  case (Some nr)
  define ifqdn where "ifqdn = i_hostname inst0 @ ''.'' @ domain"
  obtain ps2 L2 where fp: "fetch_parameters E username password verify nr ifqdn parameters
      (log_debug ''Retrieving all parameters for processing''
                 (log_debug ''Setting FQDN''
                    (log_debug (''Current instance\<newline>'' @ repr_inst E inst0) L))) = (ps2, L2)"
    by (cases "fetch_parameters E username password verify nr ifqdn parameters
      (log_debug ''Retrieving all parameters for processing''
                 (log_debug ''Setting FQDN''
                    (log_debug (''Current instance\<newline>'' @ repr_inst E inst0) L)))")
  obtain r3 i3 L3 where it: "instance_type E sid username password verify nr ifqdn
       (inst0\<lparr>i_fqdn := Some ifqdn\<rparr>) ps2 sd L2 = (r3, i3, L3)"
    by (cases "instance_type E sid username password verify nr ifqdn
       (inst0\<lparr>i_fqdn := Some ifqdn\<rparr>) ps2 sd L2")
  have sel: "i_instance (inst0\<lparr>i_fqdn := Some ifqdn\<rparr>) = Some nr" using Some by simp
  show ?thesis
  proof (cases r3)
    case (Inl e)
    show ?thesis
      using assms
      unfolding process_instance_def Let_def ifqdn_def [symmetric] sel option.case fp prod.case
        it Inl sum.case
      by simp
  next
    case (Inr sd2)
    obtain r4 i4 L4 where ai: "add_instance E username password verify fqdn a nr i3 sd2 L3 = (r4, i4, L4)"
      by (cases "add_instance E username password verify fqdn a nr i3 sd2 L3")
    have res: "(case r4 of Inl e \<Rightarrow> (Inl e, i4, L4) | Inr system_data2 \<Rightarrow> (Inr (ps2, system_data2), i4, L4))
                 = (Inr (parameters1, sd1), i1, L1)"
      using assms
      unfolding process_instance_def Let_def ifqdn_def [symmetric] sel option.case fp prod.case
        it Inr sum.case ai
      by (cases r4) simp_all
    then have r4: "r4 = Inr sd1" and i4: "i4 = i1" by (cases r4; simp)+
    have "sd_instances sd2 = sd_instances sd"
      using instance_type_instances it Inr by blast
    with add_instance_success [OF ai [unfolded r4]] i4 Some show ?thesis by simp
  qed
qed

text \<open>
  The loop: a dict without the key \<^verbatim>\<open>instance\<close> cannot be visited by a loop that
  completes, so the loop leaves it as it is; and the loop keeps the keys of the
  mapping distinct, the inserted dicts without the key \<^verbatim>\<open>instance\<close> and named by
  the properties fetched for their number and the loop's \<open>fqdn\<close>.
\<close>

lemma loop_instances_step:
  assumes "process_instance E sid username password verify domain fqdn a (H a) parameters sd L
             = (r, i1, L1)"
  shows "loop_instances E sid username password verify domain fqdn (a # rest) parameters sd H L =
           (case r of
              Inl e \<Rightarrow> (Inl e, H(a := i1), L1)
            | Inr (parameters1, sd1) \<Rightarrow>
                loop_instances E sid username password verify domain fqdn rest parameters1 sd1
                  (H(a := i1)) L1)"
  using assms by (simp split: sum.split)


lemma update_entries:
  "(n, b) \<in> set (AList.update k v al) \<Longrightarrow> (n, b) = (k, v) \<or> (n, b) \<in> set al"
  by (induction al) (auto split: if_splits)

lemma loop_instances_invariant:
  assumes "loop_instances E sid username password verify domain fqdn refs parameters sd H L
             = (Inr (parameters', sd'), H', L')"
    and "sd_instances sd = Some m"
    and "distinct (map fst m)"
    and "\<forall>(n, b) \<in> set m. i_instance (H b) = None
           \<and> i_name (H b) = Some (case map_of (get_instance_properties E n fqdn username password verify)
                                           ''INSTANCE_NAME'' of
                                     None \<Rightarrow> ''UNKOWN_INSTANCE_NAME'' | Some x \<Rightarrow> x)"
  shows "\<exists>m'. sd_instances sd' = Some m' \<and> distinct (map fst m')
           \<and> (\<forall>(n, b) \<in> set m'. i_instance (H' b) = None
                \<and> i_name (H' b) = Some (case map_of (get_instance_properties E n fqdn username password verify)
                                           ''INSTANCE_NAME'' of
                                     None \<Rightarrow> ''UNKOWN_INSTANCE_NAME'' | Some x \<Rightarrow> x))"
  using assms
proof (induction refs arbitrary: parameters sd H L m)
  case Nil
  then show ?case by simp
next
  case (Cons a as)
  obtain r i1 L1 where pi:
    "process_instance E sid username password verify domain fqdn a (H a) parameters sd L = (r, i1, L1)"
    by (cases "process_instance E sid username password verify domain fqdn a (H a) parameters sd L")
  note step = loop_instances_step [where H = H and a = a and rest = as, OF pi]
  show ?case
  proof (cases r)
    case (Inl e)
    with Cons.prems(1) step show ?thesis by simp
  next
    case (Inr x)
    obtain parameters1 sd1 where x: "x = (parameters1, sd1)" by (cases x)
    have run: "loop_instances E sid username password verify domain fqdn as parameters1 sd1
                 (H(a := i1)) L1 = (Inr (parameters', sd'), H', L')"
      using Cons.prems(1) step Inr x by simp
    from process_instance_success [OF pi [unfolded Inr x]] Cons.prems(2)
    obtain nr where nr: "i_instance (H a) = Some nr"
      and sd1: "sd_instances sd1 = Some (AList.update nr a m)"
      and i1: "i_instance i1 = None"
      and nm: "i_name i1 = Some (case map_of (get_instance_properties E nr fqdn username password verify)
                                           ''INSTANCE_NAME'' of
                                     None \<Rightarrow> ''UNKOWN_INSTANCE_NAME'' | Some x \<Rightarrow> x)"
      by auto
    have d: "distinct (map fst (AList.update nr a m))"
      using Cons.prems(3) by (rule distinct_update)
    have inv: "\<forall>(n, b) \<in> set (AList.update nr a m). i_instance ((H(a := i1)) b) = None
           \<and> i_name ((H(a := i1)) b) = Some (case map_of (get_instance_properties E n fqdn username password verify)
                                           ''INSTANCE_NAME'' of
                                     None \<Rightarrow> ''UNKOWN_INSTANCE_NAME'' | Some x \<Rightarrow> x)"
    proof (clarify)
      fix n b
      assume "(n, b) \<in> set (AList.update nr a m)"
      then consider "(n, b) = (nr, a)" | "(n, b) \<in> set m" using update_entries by fast
      then show "i_instance ((H(a := i1)) b) = None
           \<and> i_name ((H(a := i1)) b) = Some (case map_of (get_instance_properties E n fqdn username password verify)
                                           ''INSTANCE_NAME'' of
                                     None \<Rightarrow> ''UNKOWN_INSTANCE_NAME'' | Some x \<Rightarrow> x)"
      proof cases
        case 1
        then show ?thesis using i1 nm by simp
      next
        case 2
        with Cons.prems(4) have old: "i_instance (H b) = None
           \<and> i_name (H b) = Some (case map_of (get_instance_properties E n fqdn username password verify)
                                           ''INSTANCE_NAME'' of
                                     None \<Rightarrow> ''UNKOWN_INSTANCE_NAME'' | Some x \<Rightarrow> x)"
          by fast
        with nr have "b \<noteq> a" by auto
        with old show ?thesis by simp
      qed
    qed
    from Cons.IH [OF run sd1 d inv] show ?thesis .
  qed
qed


text \<open>A run that returns a mapping with the key \<^verbatim>\<open>instances\<close> is a completed loop
  over the fetched instance list, started with the empty mapping.\<close>

lemma get_system_data_success:
  assumes "get_system_data E sid username password verify = (Inr system_data, H, L)"
    and "sd_instances system_data = Some m"
  shows "\<exists>hostname number found parameters L0 L3.
           list_instances E sid username password (\<not> verify) = (hostname, number) # found
         \<and> loop_instances E sid username password verify (grains_domain E)
               (hostname @ ''.'' @ grains_domain E)
               (get_system_instance_list E number (hostname @ ''.'' @ grains_domain E)
                  username password verify)
               None (empty_system_data\<lparr>sd_instances := Some []\<rparr>) (store E) L0
             = (Inr (parameters, system_data), H, L3)"
proof (cases "list_instances E sid username password (\<not> verify)")
  case Nil
  have "system_data = empty_system_data"
    using assms(1) unfolding get_system_data_def Let_def Nil list.case by simp
  with assms(2) show ?thesis by (simp add: empty_system_data_def)
next
  case (Cons x found)
  obtain hostname number where x: "x = (hostname, number)" by (cases x)
  define fqdn where "fqdn = hostname @ ''.'' @ grains_domain E"
  define refs where "refs = get_system_instance_list E number fqdn username password verify"
  show ?thesis
  proof (cases refs)
    case Nil
    show ?thesis
      using assms(1)
      unfolding get_system_data_def Let_def Cons x list.case prod.case fqdn_def [symmetric]
        refs_def [symmetric] Nil
      by simp
  next
    case (Cons a as)
    define L0 where "L0 = log_debug ''Loop instances''
                            (log_debug (''Got instance details\<newline>''
                                          @ repr_insts E (map (store E) (a # as)))
                     (log_debug (''Getting instance details for system '' @ sid)
                     (log_debug (''Got FQDN: '' @ fqdn)
                        (log_debug (''Got Hostname: '' @ hostname)
                           (log_debug (''Got instances\<newline>'' @ repr_found E ((hostname, number) # found))
                 (log_debug (''Getting instances for system '' @ sid)
                 (log_debug ''Running function'' [])))))))"
    obtain r H' L3 where lp:
      "loop_instances E sid username password verify (grains_domain E) fqdn (a # as) None
         (empty_system_data\<lparr>sd_instances := Some []\<rparr>) (store E) L0 = (r, H', L3)"
      by (cases "loop_instances E sid username password verify (grains_domain E) fqdn (a # as) None
         (empty_system_data\<lparr>sd_instances := Some []\<rparr>) (store E) L0")
    have res: "(case r of Inl e \<Rightarrow> (Inl e, H', L3)
                | Inr (parameters, system_data) \<Rightarrow>
                      (Inr system_data, H',
                       log_trace (''system_data\<newline>'' @ repr_data E system_data H' @ '':'') L3))
               = (Inr system_data, H, L)"
      using assms(1)
      unfolding get_system_data_def Let_def \<open>list_instances E sid username password (\<not> verify) = x # found\<close>
        x list.case prod.case fqdn_def [symmetric] refs_def [symmetric] Cons L0_def [symmetric] lp
      by (simp split: sum.split)
    show ?thesis
    proof (cases r)
      case (Inl e)
      with res show ?thesis by simp
    next
      case (Inr y)
      obtain parameters sd where y: "y = (parameters, sd)" by (cases y)
      from res Inr y have "sd = system_data" "H' = H" by simp_all
      with lp Inr y Cons
      have "loop_instances E sid username password verify (grains_domain E) fqdn refs None
         (empty_system_data\<lparr>sd_instances := Some []\<rparr>) (store E) L0
         = (Inr (parameters, system_data), H, L3)"
        by simp
      then show ?thesis
        using \<open>list_instances E sid username password (\<not> verify) = x # found\<close> x
        unfolding refs_def fqdn_def by blast
    qed
  qed
qed

lemma two_hosts_run:
  "\<exists>system_data H L.
     get_system_data two_hosts_env ''T01'' ''sapadm'' ''pw'' True = (Inr system_data, H, L)
   \<and> sd_instances system_data = Some [(0, 0), (1, 1)]"
proof -
  obtain r H L where run: "get_system_data two_hosts_env ''T01'' ''sapadm'' ''pw'' True = (r, H, L)"
    by (cases "get_system_data two_hosts_env ''T01'' ''sapadm'' ''pw'' True")
  have "(case fst (get_system_data two_hosts_env ''T01'' ''sapadm'' ''pw'' True) of
           Inl e \<Rightarrow> False
         | Inr system_data \<Rightarrow> sd_instances system_data = Some [(0, 0), (1, 1)])"
    by code_simp
  with run show ?thesis by (cases r) simp_all
qed



text \<open>
  C10. For every instance of the loop the instance-properties fetch is called with
  the instance's number and the FQDN derived from the first discovered hostname, not
  with the instance's own \<^verbatim>\<open>fqdn\<close>: after a run that returns, the name of every
  instance in the mapping is the \<^verbatim>\<open>INSTANCE_NAME\<close> (or the placeholder) of the
  properties that the fetcher gives for that number and that first FQDN; and the
  whole outcome of \<^verbatim>\<open>get_system_data\<close> (result, instance dicts and log) stays the
  same when the fetcher is replaced by one that answers every call as for that first
  FQDN, so no answer for another host is ever read. In \<open>two_hosts_env\<close> the
  instance on \<^verbatim>\<open>h2\<close> has the \<^verbatim>\<open>fqdn\<close> of \<^verbatim>\<open>h2\<close> and the name the fetcher gives
  for \<^verbatim>\<open>h1\<close>.
\<close>

theorem properties_fetched_for_first_host:
  assumes "list_instances E sid username password (\<not> verify) = (hostname, number) # found"
  shows "get_system_data (props_at (hostname @ ''.'' @ grains_domain E) E) sid username password verify
           = get_system_data E sid username password verify
       \<and> (\<forall>system_data H L m n a.
             get_system_data E sid username password verify = (Inr system_data, H, L)
             \<and> sd_instances system_data = Some m \<and> (n, a) \<in> set m \<longrightarrow>
             i_name (H a) =
               Some (case map_of (get_instance_properties E n (hostname @ ''.'' @ grains_domain E)
                                    username password verify) ''INSTANCE_NAME'' of
                       None \<Rightarrow> ''UNKOWN_INSTANCE_NAME''
                     | Some x \<Rightarrow> x))"
proof -
  have inv: "get_system_data (props_at (hostname @ ''.'' @ grains_domain E) E) sid username password verify
           = get_system_data E sid username password verify"
    unfolding get_system_data_def props_at_simps assms list.case prod.case Let_def
      loop_instances_props_at ..
  have nm: "i_name (H a) =
               Some (case map_of (get_instance_properties E n (hostname @ ''.'' @ grains_domain E)
                                    username password verify) ''INSTANCE_NAME'' of
                       None \<Rightarrow> ''UNKOWN_INSTANCE_NAME''
                     | Some x \<Rightarrow> x)"
    if run: "get_system_data E sid username password verify = (Inr system_data, H, L)"
      and m: "sd_instances system_data = Some m" and e: "(n, a) \<in> set m"
    for system_data H L m n a
  proof -
    from get_system_data_success [OF run m] assms
    obtain parameters L0 L3 where
      lp: "loop_instances E sid username password verify (grains_domain E)
               (hostname @ ''.'' @ grains_domain E)
               (get_system_instance_list E number (hostname @ ''.'' @ grains_domain E)
                  username password verify)
               None (empty_system_data\<lparr>sd_instances := Some []\<rparr>) (store E) L0
             = (Inr (parameters, system_data), H, L3)"
      by auto
    have s0: "sd_instances (empty_system_data\<lparr>sd_instances := Some []\<rparr> :: 'a system_data) = Some []"
      by simp
    from loop_instances_invariant [OF lp s0] m e show ?thesis by fastforce
  qed
  from inv nm show ?thesis by blast
qed

theorem properties_fetched_for_first_host_witness:
  "list_instances two_hosts_env ''T01'' ''sapadm'' ''pw'' (\<not> True) = (''h1'', 0) # []
   \<and> get_system_data (props_at ''h1.example.org'' two_hosts_env) ''T01'' ''sapadm'' ''pw'' True
       = get_system_data two_hosts_env ''T01'' ''sapadm'' ''pw'' True
   \<and> (\<exists>system_data H L.
         get_system_data two_hosts_env ''T01'' ''sapadm'' ''pw'' True = (Inr system_data, H, L)
       \<and> sd_instances system_data = Some [(0, 0), (1, 1)]
       \<and> i_name (H 1) = Some ''NAME_ON_h1.example.org'')
   \<and> i_fqdn (fst (snd (get_system_data two_hosts_env ''T01'' ''sapadm'' ''pw'' True)) 1)
       = Some ''h2.example.org''"
proof -
  have h: "list_instances two_hosts_env ''T01'' ''sapadm'' ''pw'' (\<not> True) = (''h1'', 0) # []"
    by (simp add: two_hosts_env_def demo_env_def)
  have d: "''h1'' @ ''.'' @ grains_domain two_hosts_env = ''h1.example.org''"
    by (simp add: two_hosts_env_def demo_env_def)
  note t = properties_fetched_for_first_host [OF h, unfolded d]
  from two_hosts_run obtain system_data H L where
    run: "get_system_data two_hosts_env ''T01'' ''sapadm'' ''pw'' True = (Inr system_data, H, L)"
    and m: "sd_instances system_data = Some [(0, 0), (1, 1)]"
    by blast
  have e: "(1 :: int, 1 :: nat) \<in> set [(0, 0), (1, 1)]" by simp
  from t [THEN conjunct2, rule_format, of system_data H L "[(0, 0), (1, 1)]" 1 1] run m e
  have "i_name (H 1) =
          Some (case map_of (get_instance_properties two_hosts_env 1 ''h1.example.org''
                               ''sapadm'' ''pw'' True) ''INSTANCE_NAME'' of
                  None \<Rightarrow> ''UNKOWN_INSTANCE_NAME'' | Some x \<Rightarrow> x)"
    by blast
  then have n: "i_name (H 1) = Some ''NAME_ON_h1.example.org''"
    by (simp add: two_hosts_env_def demo_env_def)
  have f: "i_fqdn (fst (snd (get_system_data two_hosts_env ''T01'' ''sapadm'' ''pw'' True)) 1)
       = Some ''h2.example.org''"
    by code_simp
  from run m n have ex: "\<exists>system_data H L.
         get_system_data two_hosts_env ''T01'' ''sapadm'' ''pw'' True = (Inr system_data, H, L)
       \<and> sd_instances system_data = Some [(0, 0), (1, 1)]
       \<and> i_name (H 1) = Some ''NAME_ON_h1.example.org''"
    by blast
  from h t [THEN conjunct1] ex f show ?thesis by blast
qed

end
